theory Spec2Isabelle
  imports Complex_Main
begin

section \<open>OrchidJS PageController: panel transitions and scroll progress\<close>

text \<open>
  A shallow embedding of \<^verbatim>\<open>page_controller.js\<close>. JavaScript numbers are modelled as
  exact reals (no rounding, no NaN), strings as \<open>string\<close>, the document as the list of
  its elements in document order, and an element reference as its position in that list.
  A thrown exception is an outcome value returned together with the state reached when it
  was thrown, because the mutations made before a throw persist.
\<close>

subsection \<open>Scroll progress (\<^verbatim>\<open>bindScrollEvents\<close>, \<^verbatim>\<open>setProgress\<close>, \<^verbatim>\<open>cubicBezier\<close>)\<close>

text \<open>
  \<^verbatim>\<open>const u = 1 - t; const tt = t * t; const uu = u * u; const uuu = uu * u;
  const ttt = tt * t;
  const p = uuu * p0 + 3 * uu * t * p1 + 3 * u * tt * p2 + ttt * p3;\<close>
\<close>

definition cubicBezier :: "real \<Rightarrow> real \<Rightarrow> real \<Rightarrow> real \<Rightarrow> real \<Rightarrow> real" where
  "cubicBezier t p0 p1 p2 p3 =
     (let u = 1 - t;
          tt = t * t;
          uu = u * u;
          uuu = uu * u;
          ttt = tt * t;
          p = uuu * p0 + 3 * uu * t * p1 + 3 * u * tt * p2 + ttt * p3
      in p)"

text \<open>
  The three style variables a panel carries: \<^verbatim>\<open>--panel-progress\<close>,
  \<^verbatim>\<open>--panel-progress-expo\<close> and \<^verbatim>\<open>--panel-progress-overscroll\<close>
  (\<open>None\<close>: the variable has not been set).
\<close>

record panel_style =
  panel_progress :: "real option"
  panel_progress_expo :: "real option"
  panel_progress_overscroll :: "real option"

definition setProgress :: "panel_style \<Rightarrow> real \<Rightarrow> panel_style" where
  "setProgress panel progress =
     panel\<lparr>panel_progress := Some progress,
           panel_progress_expo := Some (cubicBezier progress 0 0 0 1)\<rparr>"

definition setOverscrollProgress :: "panel_style \<Rightarrow> real \<Rightarrow> panel_style" where
  "setOverscrollProgress panel progress = panel\<lparr>panel_progress_overscroll := Some progress\<rparr>"

text \<open>
  The body shared by the three callbacks:
  \<^verbatim>\<open>let progress = scrollPosition / T; if (progress >= 1) { progress = 1; }\<close>
\<close>

definition progress_of :: "real \<Rightarrow> real \<Rightarrow> real" where
  "progress_of scrollPosition threshold =
     (let progress = scrollPosition / threshold
      in if progress \<ge> 1 then 1 else progress)"

text \<open>The listener of the content's native \<^verbatim>\<open>scroll\<close> event, on \<^verbatim>\<open>content.scrollTop\<close>.\<close>

definition content_scroll :: "panel_style \<Rightarrow> real \<Rightarrow> panel_style" where
  "content_scroll panel scrollTop = setProgress panel (progress_of scrollTop 80)"

text \<open>The listener added to the smooth-scroll library, on \<^verbatim>\<open>scrollbar.offset.y\<close>.\<close>

definition scrollbar_listener :: "panel_style \<Rightarrow> real \<Rightarrow> panel_style" where
  "scrollbar_listener panel offset_y =
     setOverscrollProgress (setProgress panel (progress_of offset_y 40)) 0"

text \<open>
  The overscroll plugin's \<^verbatim>\<open>onScroll\<close>, on \<^verbatim>\<open>params.y\<close>: it returns early when
  \<^verbatim>\<open>params.y >= 0\<close>, and works on \<^verbatim>\<open>params.y * -1\<close> otherwise.
\<close>

definition overscroll_onScroll :: "panel_style \<Rightarrow> real \<Rightarrow> panel_style" where
  "overscroll_onScroll panel y =
     (if y \<ge> 0 then panel
      else setOverscrollProgress panel (progress_of (y * -1) 300))"

text \<open>The clamp of the specification, for comparison with \<open>progress_of\<close>.\<close>

definition clamp :: "real \<Rightarrow> real \<Rightarrow> real \<Rightarrow> real" where
  "clamp x lo hi = max lo (min hi x)"

subsection \<open>Strings and \<^verbatim>\<open>dataset\<close> values\<close>

text \<open>
  A \<^verbatim>\<open>dataset\<close> entry is a string when the attribute is there and
  \<^verbatim>\<open>undefined\<close> (\<open>None\<close>) when it is not. Such a value is truthy when it is a
  non-empty string.
\<close>

definition truthy :: "string option \<Rightarrow> bool" where
  "truthy v = (case v of None \<Rightarrow> False | Some s \<Rightarrow> s \<noteq> [])"

text \<open>\<^verbatim>\<open>String(index)\<close> for an array index: its decimal digits.\<close>

definition digit :: "nat \<Rightarrow> char" where
  "digit n = ''0123456789'' ! n"

fun string_of_nat :: "nat \<Rightarrow> string" where
  "string_of_nat n =
     (if n < 10 then [digit n] else string_of_nat (n div 10) @ [digit (n mod 10)])"

declare string_of_nat.simps [simp del]

text \<open>
  \<^verbatim>\<open>a < b\<close> on two strings: the first position where they differ decides, by code
  unit, and a proper prefix is smaller.
\<close>

fun str_lt :: "string \<Rightarrow> string \<Rightarrow> bool" where
  "str_lt [] [] = False"
| "str_lt [] (y # ys) = True"
| "str_lt (x # xs) [] = False"
| "str_lt (x # xs) (y # ys) =
     (if (of_char x :: nat) < of_char y then True
      else if (of_char x :: nat) = of_char y then str_lt xs ys
      else False)"

text \<open>
  \<^verbatim>\<open>a <= b\<close> and \<^verbatim>\<open>a >= b\<close> on two \<^verbatim>\<open>dataset\<close> values. Two strings are
  compared as strings. When either side is \<^verbatim>\<open>undefined\<close> it converts to NaN and the
  comparison is false.
\<close>

definition js_le :: "string option \<Rightarrow> string option \<Rightarrow> bool" where
  "js_le a b = (case (a, b) of (Some x, Some y) \<Rightarrow> \<not> str_lt y x | _ \<Rightarrow> False)"

definition js_ge :: "string option \<Rightarrow> string option \<Rightarrow> bool" where
  "js_ge a b = (case (a, b) of (Some x, Some y) \<Rightarrow> \<not> str_lt x y | _ \<Rightarrow> False)"

text \<open>\<^verbatim>\<open>code.split('.')\<close>, and the reads \<^verbatim>\<open>[0]\<close> and \<^verbatim>\<open>[1]\<close> of its result.\<close>

fun split_on :: "char \<Rightarrow> string \<Rightarrow> string list" where
  "split_on c [] = [[]]"
| "split_on c (x # xs) =
     (if x = c then [] # split_on c xs
      else (case split_on c xs of [] \<Rightarrow> [[x]] | y # ys \<Rightarrow> (x # y) # ys))"

fun nth_part :: "string list \<Rightarrow> nat \<Rightarrow> string option" where
  "nth_part [] n = None"
| "nth_part (p # ps) 0 = Some p"
| "nth_part (p # ps) (Suc n) = nth_part ps n"

definition pageBootstrap :: "string \<Rightarrow> string" where
  "pageBootstrap code =
     (case nth_part (split_on CHR ''.'' code) 0 of None \<Rightarrow> [] | Some b \<Rightarrow> b)"

definition pageObject :: "string \<Rightarrow> string option" where
  "pageObject code = nth_part (split_on CHR ''.'' code) 1"

subsection \<open>The document\<close>

record element =
  el_id :: string
  role_panel :: bool
  classList :: "string set"
  ds_index :: "string option"
  ds_previousPageId :: "string option"
  ds_pageObject :: "string option"

type_synonym dom = "element list"

fun find_first :: "('a \<Rightarrow> bool) \<Rightarrow> 'a list \<Rightarrow> nat option" where
  "find_first P [] = None"
| "find_first P (x # xs) =
     (if P x then Some 0 else map_option Suc (find_first P xs))"

text \<open>
  \<^verbatim>\<open>document.getElementById\<close>: the first element, in document order, whose id is the
  argument. An element with an empty id has no id, so the empty string finds nothing.
\<close>

definition getElementById :: "dom \<Rightarrow> string \<Rightarrow> nat option" where
  "getElementById d i = (if i = [] then None else find_first (\<lambda>e. el_id e = i) d)"

text \<open>The node lists of \<^verbatim>\<open>querySelectorAll\<close>, as positions in document order.\<close>

definition querySelectorAll :: "dom \<Rightarrow> (element \<Rightarrow> bool) \<Rightarrow> nat list" where
  "querySelectorAll d sel = filter (\<lambda>i. sel (d ! i)) [0..<length d]"

definition sel_panel :: "element \<Rightarrow> bool" where
  "sel_panel e = role_panel e"

definition sel_panel_visible :: "element \<Rightarrow> bool" where
  "sel_panel_visible e = (role_panel e \<and> ''visible'' \<in> classList e)"

definition sel_selected :: "element \<Rightarrow> bool" where
  "sel_selected e = (''selected'' \<in> classList e)"

definition querySelector :: "dom \<Rightarrow> (element \<Rightarrow> bool) \<Rightarrow> nat option" where
  "querySelector d sel = find_first sel d"

definition classList_add :: "string \<Rightarrow> element \<Rightarrow> element" where
  "classList_add c e = e\<lparr>classList := insert c (classList e)\<rparr>"

definition classList_remove :: "string \<Rightarrow> element \<Rightarrow> element" where
  "classList_remove c e = e\<lparr>classList := classList e - {c}\<rparr>"

definition classList_toggle :: "string \<Rightarrow> element \<Rightarrow> element" where
  "classList_toggle c e =
     (if c \<in> classList e then classList_remove c e else classList_add c e)"

definition classList_toggle_force :: "string \<Rightarrow> bool \<Rightarrow> element \<Rightarrow> element" where
  "classList_toggle_force c force e =
     (if force then classList_add c e else classList_remove c e)"

text \<open>Mutating the element at a position; a position outside the document mutates nothing.\<close>

definition update_at :: "nat \<Rightarrow> (element \<Rightarrow> element) \<Rightarrow> dom \<Rightarrow> dom" where
  "update_at i f d = (if i < length d then d[i := f (d ! i)] else d)"

text \<open>\<^verbatim>\<open>nodes.forEach((node) => ...)\<close> and \<^verbatim>\<open>nodes.forEach((node, index) => ...)\<close>.\<close>

definition forEach :: "nat list \<Rightarrow> (element \<Rightarrow> element) \<Rightarrow> dom \<Rightarrow> dom" where
  "forEach nodes f d = fold (\<lambda>i. update_at i f) nodes d"

definition forEach_indexed :: "nat list \<Rightarrow> (nat \<Rightarrow> element \<Rightarrow> element) \<Rightarrow> dom \<Rightarrow> dom" where
  "forEach_indexed nodes f d =
     fold (\<lambda>(i, index). update_at i (f index)) (zip nodes [0..<length nodes]) d"

text \<open>
  Lines 51 to 55 of \<^verbatim>\<open>init\<close>:
  \<^verbatim>\<open>panels.forEach((panel, index) => {
    panel.dataset.index = index; panel.classList.add('next'); });\<close>
  The assignment to \<^verbatim>\<open>dataset\<close> stores the index as a string.
\<close>

definition init_panels :: "dom \<Rightarrow> dom" where
  "init_panels d =
     forEach_indexed (querySelectorAll d sel_panel)
       (\<lambda>index panel. classList_add ''next'' (panel\<lparr>ds_index := Some (string_of_nat index)\<rparr>)) d"

subsection \<open>The location and the session history\<close>

record url =
  url_base :: string
  searchParams :: "(string \<times> string) list"

text \<open>
  \<^verbatim>\<open>searchParams.set(name, value)\<close>: the first pair of that name takes the value and
  the other pairs of that name are removed; without such a pair, one is appended.
\<close>

fun searchParams_set :: "string \<Rightarrow> string \<Rightarrow> (string \<times> string) list \<Rightarrow> (string \<times> string) list" where
  "searchParams_set n v [] = [(n, v)]"
| "searchParams_set n v ((k, x) # ps) =
     (if k = n then (n, v) # filter (\<lambda>(k', x'). k' \<noteq> n) ps
      else (k, x) # searchParams_set n v ps)"

definition searchParams_get :: "string \<Rightarrow> (string \<times> string) list \<Rightarrow> string option" where
  "searchParams_get n ps = map_of ps n"

subsection \<open>Page objects in the global namespace\<close>

text \<open>
  A lifecycle method of a page object is opaque: it is absent (calling it is a
  TypeError), or it returns, or it throws. What it does to its own object and to the
  page is outside this model, and two different paths name two different objects.
\<close>

datatype hook = Init | Show | Hide

datatype meth = Absent | Returns | Raises

datatype js_error = TypeError | HookError hook

datatype outcome = Normal | Threw js_error

record controller =
  init_m :: meth
  show_m :: meth
  hide_m :: meth
  isLoaded :: bool

text \<open>
  The value of a global: \<^verbatim>\<open>undefined\<close> or \<^verbatim>\<open>null\<close>, or an object, which is a page
  object itself (a path without a dot names it) and has page objects as properties.
\<close>

datatype jsval = Nullish | Obj controller "string \<Rightarrow> controller option"

type_synonym window = "string \<Rightarrow> jsval option"

definition method_of :: "controller \<Rightarrow> hook \<Rightarrow> meth" where
  "method_of c h = (case h of Init \<Rightarrow> init_m c | Show \<Rightarrow> show_m c | Hide \<Rightarrow> hide_m c)"

text \<open>
  \<^verbatim>\<open>key in window\<close>. An \<^verbatim>\<open>undefined\<close> key is the property name
  \<^verbatim>\<open>"undefined"\<close>, which a browser's window object always has.
\<close>

definition prop_key :: "string option \<Rightarrow> string" where
  "prop_key k = (case k of None \<Rightarrow> ''undefined'' | Some s \<Rightarrow> s)"

definition in_window :: "window \<Rightarrow> string option \<Rightarrow> bool" where
  "in_window w k = (w (prop_key k) \<noteq> None)"

text \<open>\<^verbatim>\<open>window[b]\<close>: a global that is not there reads as \<^verbatim>\<open>undefined\<close>.\<close>

definition global :: "window \<Rightarrow> string \<Rightarrow> jsval" where
  "global w b = (case w b of None \<Rightarrow> Nullish | Some v \<Rightarrow> v)"

text \<open>
  The object a lifecycle call is made on: \<^verbatim>\<open>window[b][obj]\<close> when \<^verbatim>\<open>obj\<close> is
  truthy and \<^verbatim>\<open>window[b]\<close> otherwise. Reading a property of \<^verbatim>\<open>undefined\<close> is a
  TypeError; \<open>Inr None\<close> is a read that gave no object.
\<close>

definition receiver :: "window \<Rightarrow> string \<Rightarrow> string option \<Rightarrow> js_error + controller option" where
  "receiver w b obj =
     (case global w b of
        Nullish \<Rightarrow> (if truthy obj then Inl TypeError else Inr None)
      | Obj c props \<Rightarrow> (if truthy obj then Inr (props (the obj)) else Inr (Some c)))"

definition obj_key :: "string option \<Rightarrow> string option" where
  "obj_key obj = (if truthy obj then obj else None)"

subsection \<open>The controller's state\<close>

text \<open>
  The fields of \<^verbatim>\<open>PageController\<close> and the parts of the page it reads and writes.
  \<open>history\<close> holds the entries pushed so far, oldest first, and \<open>calls\<close> the lifecycle
  methods invoked so far, oldest first, each with the path of its object and the value
  that \<^verbatim>\<open>isLoaded\<close> of this object had when the method was called.
\<close>

type_synonym call = "string \<times> string option \<times> hook \<times> bool"

record state =
  previousPanelId :: string
  currentPanelId :: string
  isKeyDown :: bool
  document :: dom
  location :: url
  history :: "url list"
  window :: window
  calls :: "call list"

text \<open>\<^verbatim>\<open>history.pushState({}, '', url)\<close>: a new entry, which becomes the location.\<close>

definition pushState :: "state \<Rightarrow> url \<Rightarrow> state" where
  "pushState st u = st\<lparr>location := u, history := history st @ [u]\<rparr>"

text \<open>
  A call \<^verbatim>\<open>receiver.hook()\<close>. A receiver that is not an object and a method that is
  not there give a TypeError and no call; a method that throws has been called.
\<close>

definition invoke :: "state \<Rightarrow> string \<Rightarrow> string option \<Rightarrow> hook \<Rightarrow> outcome \<times> state" where
  "invoke st b obj h =
     (case receiver (window st) b obj of
        Inl e \<Rightarrow> (Threw e, st)
      | Inr None \<Rightarrow> (Threw TypeError, st)
      | Inr (Some c) \<Rightarrow>
          (case method_of c h of
             Absent \<Rightarrow> (Threw TypeError, st)
           | Returns \<Rightarrow>
               (Normal, st\<lparr>calls := calls st @ [(b, obj_key obj, h, isLoaded c)]\<rparr>)
           | Raises \<Rightarrow>
               (Threw (HookError h),
                st\<lparr>calls := calls st @ [(b, obj_key obj, h, isLoaded c)]\<rparr>)))"

text \<open>\<^verbatim>\<open>try { ... } catch (error) { }\<close>: the error is dropped, the state stays.\<close>

definition try_catch :: "outcome \<times> state \<Rightarrow> outcome \<times> state" where
  "try_catch r = (Normal, snd r)"

text \<open>\<^verbatim>\<open>receiver.isLoaded = true\<close>, on the receiver of \<open>receiver\<close>.\<close>

definition set_isLoaded :: "window \<Rightarrow> string \<Rightarrow> string option \<Rightarrow> window" where
  "set_isLoaded w b obj =
     (case global w b of
        Nullish \<Rightarrow> w
      | Obj c props \<Rightarrow>
          (if truthy obj then
             (case props (the obj) of
                None \<Rightarrow> w
              | Some c' \<Rightarrow> w(b \<mapsto> Obj c (props(the obj \<mapsto> c'\<lparr>isLoaded := True\<rparr>))))
           else w(b \<mapsto> Obj (c\<lparr>isLoaded := True\<rparr>) props)))"

text \<open>
  Lines 315 to 331, on the source panel's \<^verbatim>\<open>dataset.pageObject\<close>. The test before
  the call is \<^verbatim>\<open>selectedPageObject in window\<close>, and the call is inside \<^verbatim>\<open>try\<close>.
\<close>

definition hide_selected :: "state \<Rightarrow> string option \<Rightarrow> outcome \<times> state" where
  "hide_selected st selectedPageCode =
     (if truthy selectedPageCode then
        (let selectedPageBootstrap = pageBootstrap (the selectedPageCode);
             selectedPageObject = pageObject (the selectedPageCode)
         in if in_window (window st) selectedPageObject
            then try_catch (invoke st selectedPageBootstrap selectedPageObject Hide)
            else (Normal, st))
      else (Normal, st))"

text \<open>
  Lines 339 to 349: \<^verbatim>\<open>init()\<close> on a target object that is there and not loaded, then
  \<^verbatim>\<open>isLoaded = true\<close>. These lines are outside any \<^verbatim>\<open>try\<close>.
\<close>

definition init_target :: "state \<Rightarrow> string \<Rightarrow> string option \<Rightarrow> outcome \<times> state" where
  "init_target st b obj =
     (case receiver (window st) b obj of
        Inl e \<Rightarrow> (Threw e, st)
      | Inr None \<Rightarrow> (Normal, st)
      | Inr (Some c) \<Rightarrow>
          (if isLoaded c then (Normal, st)
           else (case invoke st b obj Init of
                   (Normal, st') \<Rightarrow> (Normal, st'\<lparr>window := set_isLoaded (window st') b obj\<rparr>)
                 | (Threw e, st') \<Rightarrow> (Threw e, st'))))"

text \<open>
  Lines 333 to 361, on the target panel's \<^verbatim>\<open>dataset.pageObject\<close>. The test is
  \<^verbatim>\<open>targetPageBootstrap in window\<close>, and only the call of \<^verbatim>\<open>show()\<close> is inside
  \<^verbatim>\<open>try\<close>.
\<close>

definition show_target :: "state \<Rightarrow> string option \<Rightarrow> outcome \<times> state" where
  "show_target st targetPageCode =
     (if truthy targetPageCode then
        (let targetPageBootstrap = pageBootstrap (the targetPageCode);
             targetPageObject = pageObject (the targetPageCode)
         in if in_window (window st) (Some targetPageBootstrap)
            then (case init_target st targetPageBootstrap targetPageObject of
                    (Threw e, st') \<Rightarrow> (Threw e, st')
                  | (Normal, st') \<Rightarrow>
                      try_catch (invoke st' targetPageBootstrap targetPageObject Show))
            else (Normal, st))
      else (Normal, st))"

text \<open>
  Lines 305 to 313, on the positions of the source and the target panel:
  \<^verbatim>\<open>visible\<close> leaves every panel that had it when line 295 ran, the source and then
  the target take \<^verbatim>\<open>previous\<close> and \<^verbatim>\<open>next\<close> by the two comparisons of
  \<^verbatim>\<open>dataset.index\<close>, and \<^verbatim>\<open>visible\<close> is toggled on the target.
\<close>

definition toggle_classes :: "dom \<Rightarrow> nat \<Rightarrow> nat \<Rightarrow> dom" where
  "toggle_classes d s t =
     (let selectedPanels = querySelectorAll d sel_panel_visible;
          d1 = forEach selectedPanels (classList_remove ''visible'') d;
          d2 = update_at s (classList_toggle_force ''previous''
                 (js_le (ds_index (d1 ! s)) (ds_index (d1 ! t)))) d1;
          d3 = update_at s (classList_toggle_force ''next''
                 (js_ge (ds_index (d2 ! s)) (ds_index (d2 ! t)))) d2;
          d4 = update_at t (classList_toggle ''visible'') d3;
          d5 = update_at t (classList_toggle_force ''previous''
                 (js_le (ds_index (d4 ! s)) (ds_index (d4 ! t)))) d4;
          d6 = update_at t (classList_toggle_force ''next''
                 (js_ge (ds_index (d5 ! s)) (ds_index (d5 ! t)))) d5
      in d6)"

text \<open>
  \<^verbatim>\<open>togglePanelVisibility(selectedPanelId, targetPanelId)\<close>, the transition. A missing
  source panel returns at line 298; a missing target panel is dereferenced at line 301,
  which is a TypeError.
\<close>

definition togglePanelVisibility :: "state \<Rightarrow> string \<Rightarrow> string \<Rightarrow> outcome \<times> state" where
  "togglePanelVisibility st selectedPanelId targetPanelId =
     (if selectedPanelId \<noteq> targetPanelId then
        (let st1 = st\<lparr>previousPanelId :=
                         (if selectedPanelId \<noteq> [] then selectedPanelId else ''root''),
                       currentPanelId := targetPanelId\<rparr>;
             u = location st1;
             u' = u\<lparr>searchParams := searchParams_set ''panel'' targetPanelId (searchParams u)\<rparr>;
             st2 = pushState st1 u'
         in case getElementById (document st2) selectedPanelId of
              None \<Rightarrow> (Normal, st2)
            | Some s \<Rightarrow>
                (case getElementById (document st2) targetPanelId of
                   None \<Rightarrow> (Threw TypeError, st2)
                 | Some t \<Rightarrow>
                     (let st3 = (if truthy (ds_previousPageId (document st2 ! t))
                                 then st2\<lparr>previousPanelId :=
                                            the (ds_previousPageId (document st2 ! t))\<rparr>
                                 else st2);
                          st4 = st3\<lparr>document := toggle_classes (document st3) s t\<rparr>
                      in case hide_selected st4 (ds_pageObject (document st4 ! s)) of
                           (Threw e, st5) \<Rightarrow> (Threw e, st5)
                         | (Normal, st5) \<Rightarrow>
                             show_target st5 (ds_pageObject (document st5 ! t)))))
      else (Normal, st))"

text \<open>
  \<^verbatim>\<open>handleKeyDown(event)\<close> on \<^verbatim>\<open>event.key\<close>, and \<^verbatim>\<open>handleKeyUp(event)\<close>. The
  guard is set after the transition has returned.
\<close>

definition handleKeyDown :: "state \<Rightarrow> string \<Rightarrow> outcome \<times> state" where
  "handleKeyDown st key =
     (if isKeyDown st then (Normal, st)
      else if key = ''Escape'' then
        (let st1 = (case querySelector (document st) sel_selected of
                      None \<Rightarrow> st
                    | Some b \<Rightarrow>
                        st\<lparr>document := update_at b (classList_remove ''selected'') (document st)\<rparr>)
         in if previousPanelId st1 \<noteq> [] \<and> currentPanelId st1 \<noteq> [] then
              (case togglePanelVisibility st1 (currentPanelId st1) (previousPanelId st1) of
                 (Threw e, st2) \<Rightarrow> (Threw e, st2)
               | (Normal, st2) \<Rightarrow> (Normal, st2\<lparr>isKeyDown := True\<rparr>))
            else (Normal, st1))
      else (Normal, st))"

definition handleKeyUp :: "state \<Rightarrow> state" where
  "handleKeyUp st = st\<lparr>isKeyDown := False\<rparr>"

text \<open>Events handled one after the other; a handler that throws ends only its own event.\<close>

fun transitions :: "state \<Rightarrow> (string \<times> string) list \<Rightarrow> state" where
  "transitions st [] = st"
| "transitions st ((a, b) # ts) = transitions (snd (togglePanelVisibility st a b)) ts"

subsection \<open>Notions used to state the properties\<close>

text \<open>What line 306 does to one element: a visible panel loses \<^verbatim>\<open>visible\<close>.\<close>

definition strip_visible :: "element \<Rightarrow> element" where
  "strip_visible e = (if sel_panel_visible e then classList_remove ''visible'' e else e)"

text \<open>Lines 284 to 292 as one update: the navigation pointer, the location, the history.\<close>

definition navigate :: "state \<Rightarrow> string \<Rightarrow> string \<Rightarrow> state" where
  "navigate st a b =
     st\<lparr>previousPanelId := (if a \<noteq> [] then a else ''root''),
        currentPanelId := b,
        location := (location st)\<lparr>searchParams :=
                       searchParams_set ''panel'' b (searchParams (location st))\<rparr>,
        history := history st @ [(location st)\<lparr>searchParams :=
                       searchParams_set ''panel'' b (searchParams (location st))\<rparr>]\<rparr>"

text \<open>Lines 284 to 313 as one update, for a source at position \<open>s\<close> and a target at \<open>t\<close>.\<close>

definition restyle :: "state \<Rightarrow> string \<Rightarrow> string \<Rightarrow> nat \<Rightarrow> nat \<Rightarrow> state" where
  "restyle st a b s t =
     (let st2 = navigate st a b;
          st3 = (if truthy (ds_previousPageId (document st2 ! t))
                 then st2\<lparr>previousPanelId := the (ds_previousPageId (document st2 ! t))\<rparr>
                 else st2)
      in st3\<lparr>document := toggle_classes (document st3) s t\<rparr>)"

text \<open>What the lifecycle calls leave alone: everything but the globals and the call log.\<close>

definition lifecycle_frame :: "state \<Rightarrow> state \<Rightarrow> bool" where
  "lifecycle_frame st st' =
     (previousPanelId st' = previousPanelId st \<and> currentPanelId st' = currentPanelId st \<and>
      isKeyDown st' = isKeyDown st \<and> document st' = document st \<and>
      location st' = location st \<and> history st' = history st)"

text \<open>The number of calls of one hook on the object of one path, in a call log.\<close>

definition count_calls :: "string \<Rightarrow> string option \<Rightarrow> hook \<Rightarrow> call list \<Rightarrow> nat" where
  "count_calls b k h cs = length (filter (\<lambda>(b', k', h', l). b' = b \<and> k' = k \<and> h' = h) cs)"

definition count_hook :: "hook \<Rightarrow> call list \<Rightarrow> nat" where
  "count_hook h cs = length (filter (\<lambda>(b', k', h', l). h' = h) cs)"

text \<open>
  What one lifecycle call adds to the call log, read off the globals: one entry when the
  receiver is an object that has the method, and nothing otherwise. \<open>hide_calls\<close> is the
  same for lines 315 to 331, which call \<^verbatim>\<open>hide()\<close> only when the second part of the
  path is a global.
\<close>

definition hook_calls :: "window \<Rightarrow> string \<Rightarrow> string option \<Rightarrow> hook \<Rightarrow> call list" where
  "hook_calls w b obj h =
     (case receiver w b obj of
        Inr (Some c) \<Rightarrow>
          (if method_of c h = Absent then [] else [(b, obj_key obj, h, isLoaded c)])
      | _ \<Rightarrow> [])"

definition hide_calls :: "window \<Rightarrow> string option \<Rightarrow> call list" where
  "hide_calls w code =
     (if truthy code \<and> in_window w (pageObject (the code))
      then hook_calls w (pageBootstrap (the code)) (pageObject (the code)) Hide
      else [])"

text \<open>
  A path resolves when its first part is a global and its receiver is an object;
  \<open>loaded\<close> says that this object is marked \<^verbatim>\<open>isLoaded\<close>.
\<close>

definition resolves :: "window \<Rightarrow> string \<Rightarrow> bool" where
  "resolves w code =
     (in_window w (Some (pageBootstrap code)) \<and>
      (case receiver w (pageBootstrap code) (pageObject code) of
         Inr (Some c) \<Rightarrow> True | _ \<Rightarrow> False))"

definition loaded :: "window \<Rightarrow> string \<Rightarrow> string option \<Rightarrow> bool" where
  "loaded w b k =
     (case receiver w b k of Inr (Some c) \<Rightarrow> isLoaded c | _ \<Rightarrow> False)"

text \<open>Lines 238 to 241 of \<^verbatim>\<open>handleKeyDown\<close>: the first selected element is unselected.\<close>

definition unselect :: "state \<Rightarrow> state" where
  "unselect st =
     (case querySelector (document st) sel_selected of
        None \<Rightarrow> st
      | Some b \<Rightarrow> st\<lparr>document := update_at b (classList_remove ''selected'') (document st)\<rparr>)"

subsection \<open>Example pages\<close>

definition blank_style :: panel_style where
  "blank_style = \<lparr>panel_progress = None, panel_progress_expo = None,
     panel_progress_overscroll = None\<rparr>"

definition panel_element :: "string \<Rightarrow> string set \<Rightarrow> string option \<Rightarrow> element" where
  "panel_element i cs code =
     \<lparr>el_id = i, role_panel = True, classList = cs, ds_index = None,
      ds_previousPageId = None, ds_pageObject = code\<rparr>"

definition page_object :: "meth \<Rightarrow> meth \<Rightarrow> meth \<Rightarrow> controller" where
  "page_object i s h = \<lparr>init_m = i, show_m = s, hide_m = h, isLoaded = False\<rparr>"

text \<open>
  Three panels, \<^verbatim>\<open>home\<close> visible, after \<^verbatim>\<open>init\<close> has numbered them. The global
  \<^verbatim>\<open>Store\<close> has no property \<^verbatim>\<open>Library\<close>; \<^verbatim>\<open>hide()\<close> of \<^verbatim>\<open>Settings\<close> throws.
\<close>

definition example_document :: dom where
  "example_document =
     init_panels
       [panel_element ''home'' {''visible''} None,
        panel_element ''library'' {} (Some ''Store.Library''),
        panel_element ''settings'' {} (Some ''Settings'')]"

definition example_window :: window where
  "example_window =
     [''undefined'' \<mapsto> Nullish,
      ''Store'' \<mapsto> Obj (page_object Absent Absent Absent) Map.empty,
      ''Settings'' \<mapsto> Obj (page_object Returns Returns Raises) Map.empty]"

definition example_state :: state where
  "example_state =
     \<lparr>previousPanelId = [], currentPanelId = [], isKeyDown = False,
      document = example_document,
      location = \<lparr>url_base = ''/index.html'', searchParams = []\<rparr>,
      history = [], window = example_window, calls = []\<rparr>"

text \<open>The example page after the transition from \<^verbatim>\<open>home\<close> to \<^verbatim>\<open>settings\<close>.\<close>

definition settings_state :: state where
  "settings_state = snd (togglePanelVisibility example_state ''home'' ''settings'')"

text \<open>
  The same page with two panels visible; and a page whose \<^verbatim>\<open>home\<close> panel declares
  the object \<^verbatim>\<open>Home\<close>, whose \<^verbatim>\<open>hide()\<close> throws, and whose \<^verbatim>\<open>Settings.init()\<close>
  throws.
\<close>

definition two_visible_state :: state where
  "two_visible_state =
     example_state\<lparr>document :=
       init_panels
         [panel_element ''home'' {''visible''} None,
          panel_element ''library'' {''visible''} None,
          panel_element ''settings'' {} None]\<rparr>"

definition failing_init_state :: state where
  "failing_init_state =
     example_state\<lparr>
       document :=
         init_panels
           [panel_element ''home'' {''visible''} (Some ''Home''),
            panel_element ''library'' {} None,
            panel_element ''settings'' {} (Some ''Settings'')],
       window :=
         [''undefined'' \<mapsto> Nullish,
          ''Home'' \<mapsto> Obj (page_object Returns Returns Raises) Map.empty,
          ''Settings'' \<mapsto> Obj (page_object Raises Returns Returns) Map.empty]\<rparr>"

text \<open>
  The example page after a transition from a panel without an id to \<^verbatim>\<open>settings\<close>: the
  previous panel id is \<^verbatim>\<open>root\<close>, which names no element.
\<close>

definition root_state :: state where
  "root_state = snd (togglePanelVisibility example_state [] ''settings'')"

text \<open>Eleven panels \<^verbatim>\<open>p0\<close> to \<^verbatim>\<open>p10\<close>, \<^verbatim>\<open>p2\<close> visible, numbered by \<^verbatim>\<open>init\<close>.\<close>

definition eleven_panels :: dom where
  "eleven_panels =
     init_panels
       (map (\<lambda>n. panel_element (CHR ''p'' # string_of_nat n)
                    (if n = 2 then {''visible''} else {}) None) [0..<11])"

definition eleven_state :: state where
  "eleven_state = example_state\<lparr>document := eleven_panels\<rparr>"

section \<open>Properties\<close>

subsection \<open>The document and the state: auxiliary facts\<close>

lemma find_first_Some:
  "find_first P xs = Some k \<Longrightarrow> k < length xs \<and> P (xs ! k)"
  by (induction xs arbitrary: k) (auto split: if_splits)

lemma getElementById_Some:
  "getElementById d i = Some k \<Longrightarrow> k < length d \<and> el_id (d ! k) = i \<and> i \<noteq> []"
  by (auto simp: getElementById_def split: if_splits dest: find_first_Some)

lemma length_update_at [simp]: "length (update_at i f d) = length d"
  by (simp add: update_at_def)

lemma length_forEach [simp]: "length (forEach ns f d) = length d"
  unfolding forEach_def by (induction ns arbitrary: d) simp_all

lemma nth_update_at:
  "j < length d \<Longrightarrow> update_at i f d ! j = (if j = i then f (d ! j) else d ! j)"
  by (simp add: update_at_def)

lemma nth_forEach:
  "distinct ns \<Longrightarrow> j < length d \<Longrightarrow>
     forEach ns f d ! j = (if j \<in> set ns then f (d ! j) else d ! j)"
  unfolding forEach_def
proof (induction ns arbitrary: d)
  case Nil
  then show ?case by simp
next
  case (Cons n ns)
  have "fold (\<lambda>i. update_at i f) ns (update_at n f d) ! j =
          (if j \<in> set ns then f (update_at n f d ! j) else update_at n f d ! j)"
    using Cons.IH [of "update_at n f d"] Cons.prems by simp
  then show ?case using Cons.prems by (auto simp: nth_update_at)
qed

lemma distinct_querySelectorAll [simp]: "distinct (querySelectorAll d sel)"
  by (simp add: querySelectorAll_def)

lemma set_querySelectorAll:
  "set (querySelectorAll d sel) = {i. i < length d \<and> sel (d ! i)}"
  by (auto simp: querySelectorAll_def)

lemma length_toggle_classes [simp]: "length (toggle_classes d s t) = length d"
  by (simp add: toggle_classes_def Let_def)

lemma ds_index_class_ops [simp]:
  "ds_index (classList_add c e) = ds_index e"
  "ds_index (classList_remove c e) = ds_index e"
  "ds_index (classList_toggle c e) = ds_index e"
  "ds_index (classList_toggle_force c f e) = ds_index e"
  by (simp_all add: classList_add_def classList_remove_def classList_toggle_def
        classList_toggle_force_def)

lemma ds_index_strip [simp]: "ds_index (strip_visible e) = ds_index e"
  by (simp add: strip_visible_def)

lemma nth_toggle_classes:
  assumes "s < length d" "t < length d" "s \<noteq> t" "j < length d"
  shows "toggle_classes d s t ! j =
     (if j = s then
        classList_toggle_force ''next'' (js_ge (ds_index (d ! s)) (ds_index (d ! t)))
          (classList_toggle_force ''previous'' (js_le (ds_index (d ! s)) (ds_index (d ! t)))
             (strip_visible (d ! s)))
      else if j = t then
        classList_toggle_force ''next'' (js_ge (ds_index (d ! s)) (ds_index (d ! t)))
          (classList_toggle_force ''previous'' (js_le (ds_index (d ! s)) (ds_index (d ! t)))
             (classList_toggle ''visible'' (strip_visible (d ! t))))
      else strip_visible (d ! j))"
proof -
  have d1: "\<And>k. k < length d \<Longrightarrow>
      forEach (querySelectorAll d sel_panel_visible) (classList_remove ''visible'') d ! k
        = strip_visible (d ! k)"
    by (simp add: nth_forEach set_querySelectorAll strip_visible_def)
  show ?thesis
    using assms by (simp add: toggle_classes_def Let_def nth_update_at d1)
qed

lemma filter_upt_single:
  assumes "t < n" "\<And>j. j < n \<Longrightarrow> P j \<longleftrightarrow> j = t"
  shows "filter P [0..<n] = [t]"
proof -
  have "filter P [0..<n] = filter (\<lambda>j. j = t) [0..<n]"
    using assms(2) by (intro filter_cong) auto
  also have "\<dots> = [t]"
    using assms(1) by (induction n) auto
  finally show ?thesis .
qed

lemma visible_after_toggle_classes:
  assumes "s < length d" "t < length d" "s \<noteq> t" "role_panel (d ! t)"
  shows "querySelectorAll (toggle_classes d s t) sel_panel_visible = [t]"
  unfolding querySelectorAll_def
proof (rule filter_upt_single)
  show "t < length (toggle_classes d s t)" using assms by simp
next
  fix j assume "j < length (toggle_classes d s t)"
  then have j: "j < length d" by simp
  show "sel_panel_visible (toggle_classes d s t ! j) \<longleftrightarrow> j = t"
    using assms j
    by (auto simp: nth_toggle_classes sel_panel_visible_def strip_visible_def
          classList_toggle_force_def classList_toggle_def classList_add_def
          classList_remove_def)
qed

lemma lifecycle_frame_refl [simp]: "lifecycle_frame st st"
  by (simp add: lifecycle_frame_def)

lemma lifecycle_frame_trans:
  "lifecycle_frame st st' \<Longrightarrow> lifecycle_frame st' st'' \<Longrightarrow> lifecycle_frame st st''"
  by (simp add: lifecycle_frame_def)

lemma invoke_frame: "lifecycle_frame st (snd (invoke st b obj h))"
  by (simp add: invoke_def lifecycle_frame_def split: sum.splits option.splits meth.splits)

lemma hide_selected_frame: "lifecycle_frame st (snd (hide_selected st code))"
  using invoke_frame by (simp add: hide_selected_def try_catch_def Let_def)

lemma hide_selected_Normal [simp]: "fst (hide_selected st code) = Normal"
  by (simp add: hide_selected_def try_catch_def Let_def)

lemma init_target_frame: "lifecycle_frame st (snd (init_target st b obj))"
proof -
  have "lifecycle_frame st (snd (invoke st b obj Init))" by (rule invoke_frame)
  then show ?thesis
    by (auto simp: init_target_def lifecycle_frame_def
          split: sum.splits option.splits prod.splits outcome.splits)
qed

lemma show_target_frame: "lifecycle_frame st (snd (show_target st code))"
proof (cases "truthy code \<and> in_window (window st) (Some (pageBootstrap (the code)))")
  case False
  then show ?thesis by (auto simp: show_target_def Let_def)
next
  case True
  let ?b = "pageBootstrap (the code)" and ?o = "pageObject (the code)"
  obtain r st1 where i: "init_target st ?b ?o = (r, st1)" by (cases "init_target st ?b ?o")
  have f1: "lifecycle_frame st st1" using init_target_frame [of st ?b ?o] i by simp
  show ?thesis
  proof (cases r)
    case Normal
    have "lifecycle_frame st1 (snd (invoke st1 ?b ?o Show))" by (rule invoke_frame)
    with f1 have "lifecycle_frame st (snd (invoke st1 ?b ?o Show))"
      by (rule lifecycle_frame_trans)
    then show ?thesis using True i Normal
      by (simp add: show_target_def Let_def try_catch_def)
  next
    case (Threw e)
    then show ?thesis using True i f1 by (simp add: show_target_def Let_def)
  qed
qed

lemma toggle_same: "togglePanelVisibility st x x = (Normal, st)"
  by (simp add: togglePanelVisibility_def)

lemma toggle_missing_source:
  "a \<noteq> b \<Longrightarrow> getElementById (document st) a = None \<Longrightarrow>
     togglePanelVisibility st a b = (Normal, navigate st a b)"
  by (simp add: togglePanelVisibility_def Let_def pushState_def navigate_def)

lemma toggle_missing_target:
  "a \<noteq> b \<Longrightarrow> getElementById (document st) a = Some s \<Longrightarrow>
   getElementById (document st) b = None \<Longrightarrow>
     togglePanelVisibility st a b = (Threw TypeError, navigate st a b)"
  by (simp add: togglePanelVisibility_def Let_def pushState_def navigate_def)

lemma document_navigate [simp]: "document (navigate st a b) = document st"
  by (simp add: navigate_def)

lemma document_restyle [simp]: "document (restyle st a b s t) = toggle_classes (document st) s t"
  by (simp add: restyle_def Let_def)

lemma navigate_eq:
  "pushState (st\<lparr>previousPanelId := (if a \<noteq> [] then a else ''root''), currentPanelId := b\<rparr>)
     ((location st)\<lparr>searchParams := searchParams_set ''panel'' b (searchParams (location st))\<rparr>)
   = navigate st a b"
  by (simp add: pushState_def navigate_def)

lemma toggle_resolved:
  assumes "a \<noteq> b" "getElementById (document st) a = Some s"
    "getElementById (document st) b = Some t"
  shows "togglePanelVisibility st a b =
     show_target (snd (hide_selected (restyle st a b s t)
                        (ds_pageObject (toggle_classes (document st) s t ! s))))
       (ds_pageObject (toggle_classes (document st) s t ! t))"
proof -
  let ?st4 = "restyle st a b s t"
  let ?h = "hide_selected ?st4 (ds_pageObject (document ?st4 ! s))"
  have doc4: "document ?st4 = toggle_classes (document st) s t"
    by simp
  have fr: "lifecycle_frame ?st4 (snd ?h)" by (rule hide_selected_frame)
  then have doc5: "document (snd ?h) = toggle_classes (document st) s t"
    using doc4 by (simp add: lifecycle_frame_def)
  obtain r st5 where h: "?h = (r, st5)" by (cases ?h)
  have r: "r = Normal"
    using hide_selected_Normal [of ?st4 "ds_pageObject (document ?st4 ! s)"]
    unfolding h by (simp del: hide_selected_Normal)
  have "togglePanelVisibility st a b =
      (case ?h of (Threw e, st5) \<Rightarrow> (Threw e, st5)
       | (Normal, st5) \<Rightarrow> show_target st5 (ds_pageObject (document st5 ! t)))"
    using assms(1)
    by (cases "truthy (ds_previousPageId (document st ! t))")
       (simp_all add: togglePanelVisibility_def navigate_eq assms(2,3) restyle_def Let_def
          del: document_restyle)
  then have "togglePanelVisibility st a b = show_target st5 (ds_pageObject (document st5 ! t))"
    unfolding h r by simp
  then show ?thesis using h doc5 doc4 by simp
qed

lemma toggle_resolved_frame:
  assumes "a \<noteq> b" "getElementById (document st) a = Some s"
    "getElementById (document st) b = Some t"
  shows "lifecycle_frame (restyle st a b s t) (snd (togglePanelVisibility st a b))"
  unfolding toggle_resolved [OF assms]
  by (rule lifecycle_frame_trans [OF hide_selected_frame show_target_frame])

subsection \<open>Scroll progress and easing\<close>

lemma cubicBezier_poly:
  "cubicBezier t p0 p1 p2 p3 =
     (1 - t) ^ 3 * p0 + 3 * (1 - t) ^ 2 * t * p1 + 3 * (1 - t) * t ^ 2 * p2 + t ^ 3 * p3"
  by (simp add: cubicBezier_def Let_def power2_eq_square power3_eq_cube)

lemma cubicBezier_expo: "cubicBezier t 0 0 0 1 = t ^ 3"
  by (simp add: cubicBezier_poly)

text \<open>
  Claim C6. \<^verbatim>\<open>cubicBezier(t, p0, p1, p2, p3)\<close> is the general cubic Bezier polynomial
  in its four control values, so it gives \<open>p0\<close> at \<open>0\<close> and \<open>p3\<close> at \<open>1\<close>; for the
  control values \<open>0, 0, 0, 1\<close> that \<^verbatim>\<open>setProgress\<close> passes, it is monotonic on the
  unit interval. Numbers are exact reals here.
\<close>

theorem C6_cubicBezier_general:
  "cubicBezier t p0 p1 p2 p3 =
     (1 - t) ^ 3 * p0 + 3 * (1 - t) ^ 2 * t * p1 + 3 * (1 - t) * t ^ 2 * p2 + t ^ 3 * p3
   \<and> cubicBezier 0 p0 p1 p2 p3 = p0
   \<and> cubicBezier 1 p0 p1 p2 p3 = p3
   \<and> (\<forall>x y. 0 \<le> x \<and> x \<le> y \<and> y \<le> 1 \<longrightarrow> cubicBezier x 0 0 0 1 \<le> cubicBezier y 0 0 0 1)
   \<and> panel_progress_expo (setProgress panel t) = Some (cubicBezier t 0 0 0 1)"
proof -
  have mono: "\<forall>x y::real. 0 \<le> x \<and> x \<le> y \<and> y \<le> 1 \<longrightarrow>
      cubicBezier x 0 0 0 1 \<le> cubicBezier y 0 0 0 1"
    by (simp add: cubicBezier_expo power_mono)
  show ?thesis
    using mono by (simp add: cubicBezier_poly setProgress_def)
qed

theorem C6_cubicBezier_general_witness:
  "cubicBezier (1 / 2) 1 2 3 4 = 5 / 2
   \<and> cubicBezier 0 1 2 3 4 = 1
   \<and> cubicBezier 1 1 2 3 4 = 4
   \<and> (0::real) \<le> 1 / 4 \<and> (1 / 4 :: real) \<le> 1 / 2 \<and> (1 / 2 :: real) \<le> 1
   \<and> cubicBezier (1 / 4) 0 0 0 1 \<le> cubicBezier (1 / 2) 0 0 0 1"
proof -
  have "cubicBezier (1 / 4) 0 0 0 1 \<le> cubicBezier (1 / 2) 0 0 0 1"
    using C6_cubicBezier_general [of "1 / 2" 1 2 3 4 blank_style] by simp
  moreover have "cubicBezier (1 / 2) 1 2 3 4 = 5 / 2"
    using C6_cubicBezier_general [of "1 / 2" 1 2 3 4 blank_style]
    by (simp add: power2_eq_square power3_eq_cube)
  moreover have "cubicBezier 0 1 2 3 4 = 1" "cubicBezier 1 1 2 3 4 = 4"
    using C6_cubicBezier_general [of "1 / 2" 1 2 3 4 blank_style] by simp_all
  ultimately show ?thesis by simp
qed

lemma progress_of_min: "0 < T \<Longrightarrow> progress_of x T = min (x / T) 1"
  by (simp add: progress_of_def Let_def min_def)

text \<open>
  Claim C4 as stated fails: there is no lower bound in the code, so a native scroll
  offset of \<open>- 8\<close> publishes the progress \<open>- 1 / 10\<close>, which is not the clamp and is
  below \<open>0\<close>.
\<close>

theorem C4_counterexample:
  "panel_progress (content_scroll blank_style (- 8)) = Some (- (1 / 10))
   \<and> panel_progress (content_scroll blank_style (- 8)) \<noteq> Some (clamp (- 8 / 80) 0 1)
   \<and> \<not> (0 \<le> progress_of (- 8) 80)"
  by (simp add: content_scroll_def setProgress_def progress_of_def clamp_def blank_style_def)

text \<open>
  Claim C4, amended. The published raw progress is \<open>min (offset / T) 1\<close>, with \<open>T = 80\<close>
  for the native scroll event and \<open>T = 40\<close> for the smooth-scroll library: it never
  exceeds \<open>1\<close>; for an offset that is not negative it equals the clamp to the unit
  interval and lies in it; for a negative offset it is \<open>offset / T\<close>, below \<open>0\<close>. The
  overscroll progress always lies in the unit interval: the overscroll callback publishes
  the clamp of \<open>- y / 300\<close> for a negative \<^verbatim>\<open>params.y\<close>, also beyond 300, and
  nothing otherwise; the smooth-scroll listener publishes \<open>0\<close>; the native scroll
  listener leaves it as it is.
\<close>

theorem C4_progress_upper_clamp:
  "panel_progress (content_scroll panel x) = Some (min (x / 80) 1)
   \<and> panel_progress (scrollbar_listener panel x) = Some (min (x / 40) 1)
   \<and> min (x / 80) 1 \<le> 1 \<and> min (x / 40) 1 \<le> 1
   \<and> (0 \<le> x \<longrightarrow> min (x / 80) 1 = clamp (x / 80) 0 1 \<and> 0 \<le> min (x / 80) 1
                  \<and> min (x / 40) 1 = clamp (x / 40) 0 1 \<and> 0 \<le> min (x / 40) 1)
   \<and> (x < 0 \<longrightarrow> min (x / 80) 1 = x / 80 \<and> min (x / 40) 1 = x / 40
                \<and> min (x / 80) 1 < 0 \<and> min (x / 40) 1 < 0)
   \<and> panel_progress_overscroll (content_scroll panel x) = panel_progress_overscroll panel
   \<and> panel_progress_overscroll (scrollbar_listener panel x) = Some 0
   \<and> (y < 0 \<longrightarrow> panel_progress_overscroll (overscroll_onScroll panel y)
                    = Some (clamp (- y / 300) 0 1)
                \<and> 0 \<le> clamp (- y / 300) 0 1 \<and> clamp (- y / 300) 0 1 \<le> 1)
   \<and> (0 \<le> y \<longrightarrow> overscroll_onScroll panel y = panel)"
  by (auto simp: content_scroll_def scrollbar_listener_def overscroll_onScroll_def
        setProgress_def setOverscrollProgress_def progress_of_min clamp_def min_def max_def)

theorem C4_progress_upper_clamp_witness:
  "panel_progress (content_scroll blank_style 20) = Some (1 / 4)
   \<and> panel_progress (scrollbar_listener blank_style 20) = Some (1 / 2)
   \<and> panel_progress (content_scroll blank_style 500) = Some 1
   \<and> (0::real) \<le> 20 \<and> clamp (20 / 80) 0 1 = 1 / 4
   \<and> (- 8 :: real) < 0 \<and> panel_progress (content_scroll blank_style (- 8)) = Some (- (1 / 10))
   \<and> panel_progress_overscroll (scrollbar_listener blank_style 20) = Some 0
   \<and> (- 500 :: real) < 0
   \<and> panel_progress_overscroll (overscroll_onScroll blank_style (- 500)) = Some 1
   \<and> (- 150 :: real) < 0
   \<and> panel_progress_overscroll (overscroll_onScroll blank_style (- 150)) = Some (1 / 2)
   \<and> (0::real) \<le> 3 \<and> overscroll_onScroll blank_style 3 = blank_style"
  using C4_progress_upper_clamp [of blank_style 20 "- 500"]
        C4_progress_upper_clamp [of blank_style 500 3]
        C4_progress_upper_clamp [of blank_style "- 8" "- 150"]
  by (simp add: clamp_def)

subsection \<open>A transition to the same panel\<close>

text \<open>
  Claim C3. A transition from a panel id to the same id returns at once and leaves the
  whole state as it was: the navigation pointer, every class of every element, the
  location and the history, the globals and the call log.
\<close>

theorem C3_same_panel_noop:
  "togglePanelVisibility st x x = (Normal, st)"
  by (simp add: togglePanelVisibility_def)

theorem C3_same_panel_noop_witness:
  "togglePanelVisibility example_state ''home'' ''home'' = (Normal, example_state)"
  using C3_same_panel_noop [of example_state "''home''"] .

subsection \<open>Transitions that do not complete\<close>

lemma example_document_eq:
  "example_document =
     [\<lparr>el_id = ''home'', role_panel = True, classList = {''next'', ''visible''},
        ds_index = Some ''0'', ds_previousPageId = None, ds_pageObject = None\<rparr>,
      \<lparr>el_id = ''library'', role_panel = True, classList = {''next''},
        ds_index = Some ''1'', ds_previousPageId = None, ds_pageObject = Some ''Store.Library''\<rparr>,
      \<lparr>el_id = ''settings'', role_panel = True, classList = {''next''},
        ds_index = Some ''2'', ds_previousPageId = None, ds_pageObject = Some ''Settings''\<rparr>]"
  by (simp add: example_document_def init_panels_def forEach_indexed_def querySelectorAll_def
        sel_panel_def panel_element_def update_at_def classList_add_def upt_rec
        string_of_nat.simps digit_def insert_commute)

lemma example_state_simps [simp]:
  "document example_state = example_document"
  "history example_state = []"
  "calls example_state = []"
  "window example_state = example_window"
  "previousPanelId example_state = []"
  "currentPanelId example_state = []"
  "isKeyDown example_state = False"
  "location example_state = \<lparr>url_base = ''/index.html'', searchParams = []\<rparr>"
  by (simp_all add: example_state_def)

lemma example_ids:
  "getElementById example_document ''home'' = Some 0"
  "getElementById example_document ''library'' = Some 1"
  "getElementById example_document ''settings'' = Some 2"
  "getElementById example_document ''nope'' = None"
  by (simp_all add: example_document_eq getElementById_def)

text \<open>
  Claim C1 as stated fails: line 292 pushes the history entry before line 297 looks at
  the source panel, so a transition from an id that names no element has pushed an entry
  when it returns.
\<close>

theorem C1_counterexample:
  "''nope'' \<noteq> ''library''
   \<and> getElementById (document example_state) ''nope'' = None
   \<and> history example_state = []
   \<and> history (snd (togglePanelVisibility example_state ''nope'' ''library''))
       = [\<lparr>url_base = ''/index.html'', searchParams = [(''panel'', ''library'')]\<rparr>]"
  by (simp add: example_ids togglePanelVisibility_def Let_def pushState_def)

text \<open>
  Claim C1, amended. When the source id names no element and differs from the target id,
  the transition returns normally after updating the navigation pointer and pushing
  the history entry with \<^verbatim>\<open>panel\<close> set to the target id; no class of any element
  changes and no lifecycle method is called.
\<close>

theorem C1_missing_source_aborts:
  "a \<noteq> b \<Longrightarrow> getElementById (document st) a = None \<Longrightarrow>
     togglePanelVisibility st a b = (Normal, navigate st a b)
     \<and> previousPanelId (navigate st a b) = (if a \<noteq> [] then a else ''root'')
     \<and> currentPanelId (navigate st a b) = b
     \<and> history (navigate st a b) = history st @ [location (navigate st a b)]
     \<and> searchParams (location (navigate st a b))
          = searchParams_set ''panel'' b (searchParams (location st))
     \<and> document (navigate st a b) = document st
     \<and> calls (navigate st a b) = calls st
     \<and> window (navigate st a b) = window st
     \<and> isKeyDown (navigate st a b) = isKeyDown st"
  by (simp add: toggle_missing_source) (simp add: navigate_def)

theorem C1_missing_source_aborts_witness:
  "''nope'' \<noteq> ''library''
   \<and> getElementById (document example_state) ''nope'' = None
   \<and> fst (togglePanelVisibility example_state ''nope'' ''library'') = Normal
   \<and> previousPanelId (snd (togglePanelVisibility example_state ''nope'' ''library'')) = ''nope''
   \<and> currentPanelId (snd (togglePanelVisibility example_state ''nope'' ''library'')) = ''library''
   \<and> document (snd (togglePanelVisibility example_state ''nope'' ''library'')) = example_document
   \<and> calls (snd (togglePanelVisibility example_state ''nope'' ''library'')) = []"
proof -
  have ne: "''nope'' \<noteq> ''library''" by simp
  have src: "getElementById (document example_state) ''nope'' = None"
    by (simp add: example_ids)
  show ?thesis
    using C1_missing_source_aborts [OF ne src] ne src by simp
qed

text \<open>
  Claim C10. When the source id names an element, the target id names none and the two
  differ, the transition throws a TypeError at the first read of the target panel, after
  the navigation pointer has been set to the source and target ids and the history entry
  has been pushed; these mutations are in the state the throw leaves, and nothing else is.
\<close>

theorem C10_missing_target_throws:
  "a \<noteq> b \<Longrightarrow> getElementById (document st) a = Some s \<Longrightarrow>
   getElementById (document st) b = None \<Longrightarrow>
     togglePanelVisibility st a b = (Threw TypeError, navigate st a b)
     \<and> previousPanelId (navigate st a b) = a
     \<and> currentPanelId (navigate st a b) = b
     \<and> history (navigate st a b) = history st @ [location (navigate st a b)]
     \<and> searchParams (location (navigate st a b))
          = searchParams_set ''panel'' b (searchParams (location st))
     \<and> document (navigate st a b) = document st
     \<and> calls (navigate st a b) = calls st
     \<and> window (navigate st a b) = window st"
proof -
  assume ab: "a \<noteq> b" and src: "getElementById (document st) a = Some s"
    and tgt: "getElementById (document st) b = None"
  have "a \<noteq> []" using getElementById_Some [OF src] by simp
  then show ?thesis
    using toggle_missing_target [OF ab src tgt] by (simp add: navigate_def)
qed

theorem C10_missing_target_throws_witness:
  "''home'' \<noteq> ''nope''
   \<and> getElementById (document example_state) ''home'' = Some 0
   \<and> getElementById (document example_state) ''nope'' = None
   \<and> fst (togglePanelVisibility example_state ''home'' ''nope'') = Threw TypeError
   \<and> previousPanelId (snd (togglePanelVisibility example_state ''home'' ''nope'')) = ''home''
   \<and> currentPanelId (snd (togglePanelVisibility example_state ''home'' ''nope'')) = ''nope''
   \<and> history (snd (togglePanelVisibility example_state ''home'' ''nope''))
       = [\<lparr>url_base = ''/index.html'', searchParams = [(''panel'', ''nope'')]\<rparr>]
   \<and> document (snd (togglePanelVisibility example_state ''home'' ''nope'')) = example_document"
proof -
  have ne: "''home'' \<noteq> ''nope''" by simp
  have src: "getElementById (document example_state) ''home'' = Some 0"
    and tgt: "getElementById (document example_state) ''nope'' = None"
    by (simp_all add: example_ids)
  show ?thesis
    using C10_missing_target_throws [OF ne src tgt] ne src tgt by (simp add: navigate_def)
qed

subsection \<open>Completed transitions\<close>

lemma toggle_resolved_document:
  assumes "a \<noteq> b" "getElementById (document st) a = Some s"
    "getElementById (document st) b = Some t"
  shows "document (snd (togglePanelVisibility st a b)) = toggle_classes (document st) s t"
  using toggle_resolved_frame [OF assms] by (simp add: lifecycle_frame_def)

lemma resolved_positions:
  assumes "a \<noteq> b" "getElementById d a = Some s" "getElementById d b = Some t"
  shows "s < length d \<and> t < length d \<and> s \<noteq> t"
  using getElementById_Some [OF assms(2)] getElementById_Some [OF assms(3)] assms(1) by auto

lemma two_visible_document_eq:
  "document two_visible_state =
     [\<lparr>el_id = ''home'', role_panel = True, classList = {''next'', ''visible''},
        ds_index = Some ''0'', ds_previousPageId = None, ds_pageObject = None\<rparr>,
      \<lparr>el_id = ''library'', role_panel = True, classList = {''next'', ''visible''},
        ds_index = Some ''1'', ds_previousPageId = None, ds_pageObject = None\<rparr>,
      \<lparr>el_id = ''settings'', role_panel = True, classList = {''next''},
        ds_index = Some ''2'', ds_previousPageId = None, ds_pageObject = None\<rparr>]"
  by (simp add: two_visible_state_def init_panels_def forEach_indexed_def querySelectorAll_def
        sel_panel_def panel_element_def update_at_def classList_add_def upt_rec
        string_of_nat.simps digit_def insert_commute)

lemma toggle_resolved_visible:
  assumes "a \<noteq> b"
    and "getElementById (document st) a = Some s"
    and "getElementById (document st) b = Some t"
    and "role_panel (document st ! t)"
  shows "querySelectorAll (document (snd (togglePanelVisibility st a b))) sel_panel_visible = [t]"
proof -
  have pos: "s < length (document st) \<and> t < length (document st) \<and> s \<noteq> t"
    using assms(1-3) by (rule resolved_positions)
  have "querySelectorAll (toggle_classes (document st) s t) sel_panel_visible = [t]"
    using pos assms(4) by (simp add: visible_after_toggle_classes)
  then show ?thesis
    by (simp add: toggle_resolved_document [OF assms(1-3)])
qed

text \<open>
  Claim C2. After a transition between two different ids that both name an element, the
  target being a panel, exactly one panel carries \<^verbatim>\<open>visible\<close>, the target, however
  many panels carried it before. This holds of the state the call leaves, also when a
  lifecycle call after the class changes throws.
\<close>

theorem C2_exactly_one_visible:
  assumes "a \<noteq> b"
    and "getElementById (document st) a = Some s"
    and "getElementById (document st) b = Some t"
    and "role_panel (document st ! t)"
  shows "querySelectorAll (document (snd (togglePanelVisibility st a b))) sel_panel_visible = [t]
     \<and> length (querySelectorAll (document (snd (togglePanelVisibility st a b)))
          sel_panel_visible) = 1"
  using toggle_resolved_visible [OF assms] by simp

theorem C2_exactly_one_visible_witness:
  "''home'' \<noteq> ''settings''
   \<and> getElementById (document two_visible_state) ''home'' = Some 0
   \<and> getElementById (document two_visible_state) ''settings'' = Some 2
   \<and> role_panel (document two_visible_state ! 2)
   \<and> querySelectorAll (document two_visible_state) sel_panel_visible = [0, 1]
   \<and> querySelectorAll (document (snd (togglePanelVisibility two_visible_state ''home''
         ''settings''))) sel_panel_visible = [2]"
proof -
  have ne: "''home'' \<noteq> ''settings''" by simp
  have src: "getElementById (document two_visible_state) ''home'' = Some 0"
    and tgt: "getElementById (document two_visible_state) ''settings'' = Some 2"
    by (simp_all add: two_visible_document_eq getElementById_def)
  have pan: "role_panel (document two_visible_state ! 2)"
    by (simp add: two_visible_document_eq)
  have before: "querySelectorAll (document two_visible_state) sel_panel_visible = [0, 1]"
    by (simp add: two_visible_document_eq querySelectorAll_def sel_panel_visible_def upt_rec)
  show ?thesis
    using C2_exactly_one_visible [OF ne src tgt pan] ne src tgt pan before by simp
qed

lemma classList_strip_visible:
  "classList (strip_visible e) = (if role_panel e then classList e - {''visible''} else classList e)"
  by (auto simp: strip_visible_def sel_panel_visible_def classList_remove_def)

lemma classList_toggle_force:
  "classList (classList_toggle_force c f e) = (if f then insert c (classList e) else classList e - {c})"
  by (simp add: classList_toggle_force_def classList_add_def classList_remove_def)

lemma classList_toggle:
  "classList (classList_toggle c e) = (if c \<in> classList e then classList e - {c} else insert c (classList e))"
  by (simp add: classList_toggle_def classList_add_def classList_remove_def)

lemma toggle_direction_classes:
  assumes "a \<noteq> b" "getElementById (document st) a = Some s"
    "getElementById (document st) b = Some t"
    and "j = s \<or> j = t"
  shows "(''previous'' \<in> classList (document (snd (togglePanelVisibility st a b)) ! j)
            \<longleftrightarrow> js_le (ds_index (document st ! s)) (ds_index (document st ! t)))
       \<and> (''next'' \<in> classList (document (snd (togglePanelVisibility st a b)) ! j)
            \<longleftrightarrow> js_ge (ds_index (document st ! s)) (ds_index (document st ! t)))"
proof -
  have pos: "s < length (document st) \<and> t < length (document st) \<and> s \<noteq> t"
    using assms(1-3) by (rule resolved_positions)
  then have j: "j < length (document st)" using assms(4) by auto
  show ?thesis
    unfolding toggle_resolved_document [OF assms(1-3)]
    using pos j assms(4)
    by (auto simp: nth_toggle_classes classList_toggle_force)
qed

lemma searchParams_get_set: "searchParams_get n (searchParams_set n v ps) = Some v"
  by (induction ps) (auto simp: searchParams_get_def)

lemma toggle_resolved_location:
  assumes "a \<noteq> b" "getElementById (document st) a = Some s"
    "getElementById (document st) b = Some t"
  shows "searchParams_get ''panel''
           (searchParams (location (snd (togglePanelVisibility st a b)))) = Some b"
proof -
  have "location (snd (togglePanelVisibility st a b)) = location (restyle st a b s t)"
    using toggle_resolved_frame [OF assms] by (simp add: lifecycle_frame_def)
  then show ?thesis
    by (simp add: restyle_def Let_def navigate_def searchParams_get_set)
qed

lemma eleven_panels_eq:
  "eleven_panels =
     map (\<lambda>(i, n, v). \<lparr>el_id = i, role_panel = True,
            classList = (if v then {''next'', ''visible''} else {''next''}),
            ds_index = Some n, ds_previousPageId = None, ds_pageObject = None\<rparr>)
       [(''p0'', ''0'', False), (''p1'', ''1'', False), (''p2'', ''2'', True),
        (''p3'', ''3'', False), (''p4'', ''4'', False), (''p5'', ''5'', False),
        (''p6'', ''6'', False), (''p7'', ''7'', False), (''p8'', ''8'', False),
        (''p9'', ''9'', False), (''p10'', ''10'', False)]"
  by (simp add: eleven_panels_def init_panels_def forEach_indexed_def querySelectorAll_def
        sel_panel_def panel_element_def update_at_def classList_add_def upt_rec
        string_of_nat.simps digit_def insert_commute)

lemma eleven_ids:
  "getElementById eleven_panels ''p2'' = Some 2"
  "getElementById eleven_panels ''p10'' = Some 10"
  by (simp_all add: eleven_panels_eq getElementById_def)

lemma document_eleven_state [simp]: "document eleven_state = eleven_panels"
  by (simp add: eleven_state_def)

text \<open>
  Claim C5 says that the direction classes follow the comparison of the two panels' order
  indices. The code compares the \<^verbatim>\<open>dataset.index\<close> strings: in a page of eleven
  panels, the transition from the panel of index 2 to the panel of index 10 is styled as a
  backward one, both panels losing \<^verbatim>\<open>previous\<close> and taking \<^verbatim>\<open>next\<close>, because
  the string \<^verbatim>\<open>"10"\<close> is below the string \<^verbatim>\<open>"2"\<close>.
\<close>

theorem C5_order_compared_as_strings:
  "getElementById (document eleven_state) ''p2'' = Some 2
   \<and> getElementById (document eleven_state) ''p10'' = Some 10
   \<and> ds_index (document eleven_state ! 2) = Some (string_of_nat 2)
   \<and> ds_index (document eleven_state ! 10) = Some (string_of_nat 10)
   \<and> ''previous'' \<notin> classList (document (snd (togglePanelVisibility eleven_state ''p2'' ''p10'')) ! 2)
   \<and> ''next'' \<in> classList (document (snd (togglePanelVisibility eleven_state ''p2'' ''p10'')) ! 2)
   \<and> ''previous'' \<notin> classList (document (snd (togglePanelVisibility eleven_state ''p2'' ''p10'')) ! 10)
   \<and> ''next'' \<in> classList (document (snd (togglePanelVisibility eleven_state ''p2'' ''p10'')) ! 10)"
proof -
  have ne: "''p2'' \<noteq> ''p10''" by simp
  have src: "getElementById (document eleven_state) ''p2'' = Some 2"
    and tgt: "getElementById (document eleven_state) ''p10'' = Some 10"
    by (simp_all add: eleven_ids)
  have i2: "ds_index (document eleven_state ! 2) = Some ''2''"
    and i10: "ds_index (document eleven_state ! 10) = Some ''10''"
    by (simp_all add: eleven_panels_eq)
  have le: "\<not> js_le (Some ''2'') (Some ''10'')" and ge: "js_ge (Some ''2'') (Some ''10'')"
    by (simp_all add: js_le_def js_ge_def)
  have n: "string_of_nat 2 = ''2''" "string_of_nat 10 = ''10''"
    by (simp_all add: string_of_nat.simps digit_def)
  show ?thesis
    using toggle_direction_classes [OF ne src tgt, of 2]
          toggle_direction_classes [OF ne src tgt, of 10]
          src tgt i2 i10 le ge n
    by simp
qed

lemma home_to_settings_example:
  "getElementById (document example_state) ''home'' = Some 0
   \<and> getElementById (document example_state) ''settings'' = Some 2
   \<and> ds_index (document example_state ! 0) = Some ''0''
   \<and> ds_index (document example_state ! 2) = Some ''2''
   \<and> classList (document (snd (togglePanelVisibility example_state ''home'' ''settings'')) ! 0)
        = {''previous''}
   \<and> classList (document (snd (togglePanelVisibility example_state ''home'' ''settings'')) ! 2)
        = {''previous'', ''visible''}
   \<and> searchParams (location (snd (togglePanelVisibility example_state ''home'' ''settings'')))
        = [(''panel'', ''settings'')]"
proof -
  have ne: "''home'' \<noteq> ''settings''" by simp
  have src: "getElementById (document example_state) ''home'' = Some 0"
    and tgt: "getElementById (document example_state) ''settings'' = Some 2"
    by (simp_all add: example_ids)
  have loc: "location (snd (togglePanelVisibility example_state ''home'' ''settings''))
      = location (restyle example_state ''home'' ''settings'' 0 2)"
    using toggle_resolved_frame [OF ne src tgt] by (simp add: lifecycle_frame_def)
  have cls: "classList (toggle_classes example_document 0 2 ! 0) = {''previous''}"
    "classList (toggle_classes example_document 0 2 ! 2) = {''previous'', ''visible''}"
    by (auto simp: nth_toggle_classes classList_toggle_force classList_toggle
          classList_strip_visible example_document_eq js_le_def js_ge_def)
  show ?thesis
    using src tgt cls
    by (simp add: toggle_resolved_document [OF ne src tgt] loc restyle_def Let_def navigate_def)
       (simp add: example_document_eq)
qed

subsection \<open>More facts about transitions and the example page\<close>

lemma ds_pageObject_class_ops [simp]:
  "ds_pageObject (classList_add c e) = ds_pageObject e"
  "ds_pageObject (classList_remove c e) = ds_pageObject e"
  "ds_pageObject (classList_toggle c e) = ds_pageObject e"
  "ds_pageObject (classList_toggle_force c f e) = ds_pageObject e"
  "ds_pageObject (strip_visible e) = ds_pageObject e"
  by (simp_all add: classList_add_def classList_remove_def classList_toggle_def
        classList_toggle_force_def strip_visible_def)

lemma ds_pageObject_toggle_classes:
  "s < length d \<Longrightarrow> t < length d \<Longrightarrow> s \<noteq> t \<Longrightarrow> j < length d \<Longrightarrow>
     ds_pageObject (toggle_classes d s t ! j) = ds_pageObject (d ! j)"
  by (simp add: nth_toggle_classes)

lemma toggle_resolved_lifecycle:
  assumes "a \<noteq> b" "getElementById (document st) a = Some s"
    "getElementById (document st) b = Some t"
  shows "togglePanelVisibility st a b =
     show_target (snd (hide_selected (restyle st a b s t) (ds_pageObject (document st ! s))))
       (ds_pageObject (document st ! t))"
proof -
  have pos: "s < length (document st) \<and> t < length (document st) \<and> s \<noteq> t"
    using assms by (rule resolved_positions)
  show ?thesis
    unfolding toggle_resolved [OF assms] using pos by (simp add: ds_pageObject_toggle_classes)
qed

lemma of_char_digit: "n < 10 \<Longrightarrow> of_char (digit n) = 48 + n"
proof -
  assume "n < 10"
  then have "n \<in> {0, 1, 2, 3, 4, 5, 6, 7, 8, 9}" by auto
  then show ?thesis by (auto simp: digit_def)
qed

lemma js_le_single_digit:
  "i < 10 \<Longrightarrow> j < 10 \<Longrightarrow>
     js_le (Some (string_of_nat i)) (Some (string_of_nat j)) = (i \<le> j)
     \<and> js_ge (Some (string_of_nat i)) (Some (string_of_nat j)) = (i \<ge> j)"
  by (auto simp: js_le_def js_ge_def string_of_nat.simps of_char_digit)

lemma unselect_pointer [simp]:
  "previousPanelId (unselect st) = previousPanelId st"
  "currentPanelId (unselect st) = currentPanelId st"
  "isKeyDown (unselect st) = isKeyDown st"
  by (simp_all add: unselect_def split: option.splits)

lemma handleKeyDown_held: "isKeyDown st \<Longrightarrow> handleKeyDown st key = (Normal, st)"
  by (simp add: handleKeyDown_def)

lemma handleKeyDown_Escape:
  "\<not> isKeyDown st \<Longrightarrow> previousPanelId st \<noteq> [] \<Longrightarrow> currentPanelId st \<noteq> [] \<Longrightarrow>
     handleKeyDown st ''Escape'' =
       (case togglePanelVisibility (unselect st) (currentPanelId st) (previousPanelId st) of
          (Threw e, st2) \<Rightarrow> (Threw e, st2)
        | (Normal, st2) \<Rightarrow> (Normal, st2\<lparr>isKeyDown := True\<rparr>))"
  by (simp add: handleKeyDown_def Let_def unselect_def split: option.splits)

lemma settings_state_pointer:
  "previousPanelId settings_state = ''home''"
  "currentPanelId settings_state = ''settings''"
  "isKeyDown settings_state = False"
  "document settings_state = toggle_classes example_document 0 2"
proof -
  have ne: "''home'' \<noteq> ''settings''" by simp
  have src: "getElementById (document example_state) ''home'' = Some 0"
    and tgt: "getElementById (document example_state) ''settings'' = Some 2"
    by (simp_all add: example_ids)
  have fr: "lifecycle_frame (restyle example_state ''home'' ''settings'' 0 2) settings_state"
    unfolding settings_state_def by (rule toggle_resolved_frame [OF ne src tgt])
  have nt: "\<not> truthy (ds_previousPageId (example_document ! 2))"
    by (simp add: example_document_eq truthy_def)
  show "previousPanelId settings_state = ''home''"
    "currentPanelId settings_state = ''settings''"
    "isKeyDown settings_state = False"
    "document settings_state = toggle_classes example_document 0 2"
    using fr nt by (simp_all add: lifecycle_frame_def restyle_def Let_def navigate_def)
qed

lemma list3_eqI:
  "length xs = 3 \<Longrightarrow> xs ! 0 = a \<Longrightarrow> xs ! 1 = b \<Longrightarrow> xs ! 2 = c \<Longrightarrow> xs = [a, b, c]"
  by (cases xs; cases "tl xs"; cases "tl (tl xs)") auto

lemma class_ops_eval:
  "classList_add c \<lparr>el_id = i, role_panel = r, classList = cs, ds_index = n,
      ds_previousPageId = p, ds_pageObject = q\<rparr>
    = \<lparr>el_id = i, role_panel = r, classList = insert c cs, ds_index = n,
      ds_previousPageId = p, ds_pageObject = q\<rparr>"
  "classList_remove c \<lparr>el_id = i, role_panel = r, classList = cs, ds_index = n,
      ds_previousPageId = p, ds_pageObject = q\<rparr>
    = \<lparr>el_id = i, role_panel = r, classList = cs - {c}, ds_index = n,
      ds_previousPageId = p, ds_pageObject = q\<rparr>"
  by (simp_all add: classList_add_def classList_remove_def)

lemma settings_document_eq:
  "toggle_classes example_document 0 2 =
     [\<lparr>el_id = ''home'', role_panel = True, classList = {''previous''},
        ds_index = Some ''0'', ds_previousPageId = None, ds_pageObject = None\<rparr>,
      \<lparr>el_id = ''library'', role_panel = True, classList = {''next''},
        ds_index = Some ''1'', ds_previousPageId = None, ds_pageObject = Some ''Store.Library''\<rparr>,
      \<lparr>el_id = ''settings'', role_panel = True, classList = {''previous'', ''visible''},
        ds_index = Some ''2'', ds_previousPageId = None, ds_pageObject = Some ''Settings''\<rparr>]"
proof (rule list3_eqI)
  show "length (toggle_classes example_document 0 2) = 3"
    by (simp add: example_document_eq)
  have le: "js_le (Some ''0'') (Some ''2'')" and ge: "\<not> js_ge (Some ''0'') (Some ''2'')"
    by (simp_all add: js_le_def js_ge_def)
  show "toggle_classes example_document 0 2 ! 0 =
      \<lparr>el_id = ''home'', role_panel = True, classList = {''previous''},
        ds_index = Some ''0'', ds_previousPageId = None, ds_pageObject = None\<rparr>"
    by (simp add: nth_toggle_classes example_document_eq le ge strip_visible_def
          sel_panel_visible_def classList_toggle_force_def class_ops_eval insert_Diff_if)
  show "toggle_classes example_document 0 2 ! 1 =
      \<lparr>el_id = ''library'', role_panel = True, classList = {''next''},
        ds_index = Some ''1'', ds_previousPageId = None, ds_pageObject = Some ''Store.Library''\<rparr>"
    by (simp add: nth_toggle_classes example_document_eq strip_visible_def
          sel_panel_visible_def)
  show "toggle_classes example_document 0 2 ! 2 =
      \<lparr>el_id = ''settings'', role_panel = True, classList = {''previous'', ''visible''},
        ds_index = Some ''2'', ds_previousPageId = None, ds_pageObject = Some ''Settings''\<rparr>"
    by (simp add: nth_toggle_classes example_document_eq le ge strip_visible_def
          sel_panel_visible_def classList_toggle_force_def classList_toggle_def class_ops_eval
          insert_Diff_if insert_commute)
qed

subsection \<open>Lifecycle calls\<close>

lemma receiver_Inl: "receiver w b obj = Inl e \<Longrightarrow> e = TypeError"
  by (simp add: receiver_def split: jsval.splits if_splits)

lemma receiver_obj_key: "receiver w b (obj_key obj) = receiver w b obj"
  by (simp add: receiver_def obj_key_def truthy_def split: jsval.splits)

lemma receiver_object_in_window:
  "receiver w b obj = Inr (Some c) \<Longrightarrow> in_window w (Some b)"
  by (auto simp: receiver_def global_def in_window_def prop_key_def
        split: jsval.splits option.splits if_splits)

lemma count_hook_simps [simp]:
  "count_hook h [] = 0"
  "count_hook h ((b, k, h', l) # cs) = (if h' = h then Suc (count_hook h cs) else count_hook h cs)"
  "count_hook h (cs @ ds) = count_hook h cs + count_hook h ds"
  by (simp_all add: count_hook_def)

lemma count_calls_simps [simp]:
  "count_calls b k h [] = 0"
  "count_calls b k h ((b', k', h', l) # cs) =
     (if b' = b \<and> k' = k \<and> h' = h then Suc (count_calls b k h cs) else count_calls b k h cs)"
  "count_calls b k h (cs @ ds) = count_calls b k h cs + count_calls b k h ds"
  by (simp_all add: count_calls_def)

lemma hook_calls_cases:
  "hook_calls w b obj h = []
     \<or> (\<exists>c. receiver w b obj = Inr (Some c) \<and> method_of c h \<noteq> Absent
           \<and> hook_calls w b obj h = [(b, obj_key obj, h, isLoaded c)])"
  by (simp add: hook_calls_def split: sum.splits option.splits)

lemma count_hook_hook_calls:
  "count_hook h' (hook_calls w b obj h) \<le> Suc 0"
  "h' \<noteq> h \<Longrightarrow> count_hook h' (hook_calls w b obj h) = 0"
  using hook_calls_cases [of w b obj h] by auto

lemma count_calls_hook_calls:
  "h' \<noteq> h \<Longrightarrow> count_calls B K h' (hook_calls w b obj h) = 0"
  "\<not> (b = B \<and> obj_key obj = K) \<Longrightarrow> count_calls B K h' (hook_calls w b obj h) = 0"
  using hook_calls_cases [of w b obj h] by auto

lemma count_hook_hide_calls:
  "count_hook Hide (hide_calls w code) \<le> Suc 0"
  "count_hook Init (hide_calls w code) = 0"
  "count_hook Show (hide_calls w code) = 0"
  by (simp_all add: hide_calls_def count_hook_hook_calls)

lemma count_calls_hide_calls [simp]: "count_calls B K Init (hide_calls w code) = 0"
  by (simp add: hide_calls_def count_calls_hook_calls)

text \<open>A lifecycle call changes the call log and nothing else.\<close>

lemma invoke_state:
  "snd (invoke st b obj h) = st\<lparr>calls := calls st @ hook_calls (window st) b obj h\<rparr>"
  by (simp add: invoke_def hook_calls_def split: sum.splits option.splits meth.splits)

lemma invoke_outcome:
  "fst (invoke st b obj h) = Normal \<or> fst (invoke st b obj h) = Threw TypeError
     \<or> fst (invoke st b obj h) = Threw (HookError h)"
  by (auto simp: invoke_def split: sum.splits option.splits meth.splits dest: receiver_Inl)

lemma invoke_object:
  "receiver (window st) b obj = Inr (Some c) \<Longrightarrow>
     fst (invoke st b obj h) =
       (case method_of c h of Absent \<Rightarrow> Threw TypeError | Returns \<Rightarrow> Normal
        | Raises \<Rightarrow> Threw (HookError h))"
  by (simp add: invoke_def split: meth.splits)

lemma hide_selected_state:
  "hide_selected st code = (Normal, st\<lparr>calls := calls st @ hide_calls (window st) code\<rparr>)"
  by (simp add: hide_selected_def hide_calls_def try_catch_def invoke_state Let_def)

lemma restyle_calls [simp]: "calls (restyle st a b s t) = calls st"
  by (simp add: restyle_def Let_def navigate_def)

lemma restyle_window [simp]: "window (restyle st a b s t) = window st"
  by (simp add: restyle_def Let_def navigate_def)

lemma navigate_calls [simp]: "calls (navigate st a b) = calls st"
  by (simp add: navigate_def)

lemma navigate_window [simp]: "window (navigate st a b) = window st"
  by (simp add: navigate_def)

lemma navigate_isKeyDown [simp]: "isKeyDown (navigate st a b) = isKeyDown st"
  by (simp add: navigate_def)

lemma restyle_isKeyDown [simp]: "isKeyDown (restyle st a b s t) = isKeyDown st"
  by (simp add: restyle_def Let_def navigate_def)

text \<open>The state in which lines 333 to 361 run.\<close>

lemma toggle_resolved_state:
  assumes "a \<noteq> b" "getElementById (document st) a = Some s"
    "getElementById (document st) b = Some t"
  shows "togglePanelVisibility st a b =
     show_target ((restyle st a b s t)\<lparr>calls := calls st
                     @ hide_calls (window st) (ds_pageObject (document st ! s))\<rparr>)
       (ds_pageObject (document st ! t))"
  unfolding toggle_resolved_lifecycle [OF assms] by (simp add: hide_selected_state)

text \<open>The four ways a transition can go.\<close>

lemma toggle_cases:
  obtains (same) "a = b" "togglePanelVisibility st a b = (Normal, st)"
  | (no_source) "a \<noteq> b" "getElementById (document st) a = None"
      "togglePanelVisibility st a b = (Normal, navigate st a b)"
  | (no_target) s where "a \<noteq> b" "getElementById (document st) a = Some s"
      "getElementById (document st) b = None"
      "togglePanelVisibility st a b = (Threw TypeError, navigate st a b)"
  | (resolved) s t where "a \<noteq> b" "getElementById (document st) a = Some s"
      "getElementById (document st) b = Some t"
      "togglePanelVisibility st a b =
         show_target ((restyle st a b s t)\<lparr>calls := calls st
                         @ hide_calls (window st) (ds_pageObject (document st ! s))\<rparr>)
           (ds_pageObject (document st ! t))"
proof (cases "a = b")
  case True
  then show ?thesis using same toggle_same by simp
next
  case ne: False
  show ?thesis
  proof (cases "getElementById (document st) a")
    case None
    then show ?thesis using no_source ne toggle_missing_source by simp
  next
    case (Some s)
    show ?thesis
    proof (cases "getElementById (document st) b")
      case None
      then show ?thesis using no_target ne Some toggle_missing_target by simp
    next
      case (Some t)
      then show ?thesis
        using resolved ne \<open>getElementById (document st) a = Some s\<close>
          toggle_resolved_state by simp
    qed
  qed
qed

text \<open>Lines 339 to 349, case by case.\<close>

lemma init_target_skip:
  "receiver (window st) b obj = Inr None \<Longrightarrow> init_target st b obj = (Normal, st)"
  "receiver (window st) b obj = Inr (Some c) \<Longrightarrow> isLoaded c \<Longrightarrow>
     init_target st b obj = (Normal, st)"
  "receiver (window st) b obj = Inl e \<Longrightarrow> init_target st b obj = (Threw TypeError, st)"
  by (auto simp: init_target_def dest: receiver_Inl)

lemma init_target_call:
  assumes "receiver (window st) b obj = Inr (Some c)" "\<not> isLoaded c"
  shows "init_target st b obj =
     (case init_m c of
        Absent \<Rightarrow> (Threw TypeError, st)
      | Returns \<Rightarrow>
          (Normal, st\<lparr>calls := calls st @ [(b, obj_key obj, Init, False)],
                      window := set_isLoaded (window st) b obj\<rparr>)
      | Raises \<Rightarrow>
          (Threw (HookError Init), st\<lparr>calls := calls st @ [(b, obj_key obj, Init, False)]\<rparr>))"
  using assms by (simp add: init_target_def invoke_def method_of_def split: meth.splits)

lemma init_target_outcome:
  "fst (init_target st b obj) = Normal \<or> fst (init_target st b obj) = Threw TypeError
     \<or> fst (init_target st b obj) = Threw (HookError Init)"
proof (cases "receiver (window st) b obj")
  case (Inl e)
  then show ?thesis by (simp add: init_target_skip)
next
  case (Inr v)
  show ?thesis
  proof (cases v)
    case None
    then show ?thesis using Inr by (simp add: init_target_skip)
  next
    case (Some c)
    then show ?thesis using Inr
      by (cases "isLoaded c") (simp_all add: init_target_skip init_target_call split: meth.splits)
  qed
qed

lemma init_target_effect:
  "(calls (snd (init_target st b obj)) = calls st
      \<or> calls (snd (init_target st b obj)) = calls st @ [(b, obj_key obj, Init, False)])
   \<and> (window (snd (init_target st b obj)) = window st
      \<or> window (snd (init_target st b obj)) = set_isLoaded (window st) b obj)"
proof (cases "receiver (window st) b obj")
  case (Inl e)
  then show ?thesis by (simp add: init_target_skip)
next
  case (Inr v)
  show ?thesis
  proof (cases v)
    case None
    then show ?thesis using Inr by (simp add: init_target_skip)
  next
    case (Some c)
    then show ?thesis using Inr
      by (cases "isLoaded c") (simp_all add: init_target_skip init_target_call split: meth.splits)
  qed
qed

lemma show_target_outcome:
  "fst (show_target st code) = Normal \<or> fst (show_target st code) = Threw TypeError
     \<or> fst (show_target st code) = Threw (HookError Init)"
  using init_target_outcome [of st "pageBootstrap (the code)" "pageObject (the code)"]
  by (auto simp: show_target_def try_catch_def Let_def split: prod.splits outcome.splits)

lemma show_target_calls:
  "\<exists>n1 n2. calls (snd (show_target st code)) = calls st @ n1 @ n2
      \<and> count_hook Hide n1 = 0 \<and> count_hook Show n1 = 0
      \<and> count_hook Hide n2 = 0 \<and> count_hook Show n2 \<le> Suc 0"
proof (cases "truthy code \<and> in_window (window st) (Some (pageBootstrap (the code)))")
  case False
  then have "calls (snd (show_target st code)) = calls st @ [] @ []"
    by (auto simp: show_target_def Let_def)
  then show ?thesis by force
next
  case True
  let ?b = "pageBootstrap (the code)" and ?o = "pageObject (the code)"
  obtain r st1 where i: "init_target st ?b ?o = (r, st1)" by (cases "init_target st ?b ?o")
  have "calls st1 = calls st \<or> calls st1 = calls st @ [(?b, obj_key ?o, Init, False)]"
    using init_target_effect [of st ?b ?o] i by simp
  then obtain n1 where n1: "calls st1 = calls st @ n1"
    "count_hook Hide n1 = 0" "count_hook Show n1 = 0"
    by auto
  show ?thesis
  proof (cases r)
    case Normal
    let ?n2 = "hook_calls (window st1) ?b ?o Show"
    have "calls (snd (show_target st code)) = calls st @ n1 @ ?n2"
      using True i Normal n1(1) by (simp add: show_target_def Let_def try_catch_def invoke_state)
    then show ?thesis
      using n1(2,3) count_hook_hook_calls [where w = "window st1" and b = ?b and obj = ?o and h = Show] by force
  next
    case (Threw e)
    have "calls (snd (show_target st code)) = calls st @ n1 @ []"
      using True i Threw n1(1) by (simp add: show_target_def Let_def)
    then show ?thesis using n1(2,3) by force
  qed
qed

lemma toggle_outcome:
  "fst (togglePanelVisibility st a b) = Normal
     \<or> fst (togglePanelVisibility st a b) = Threw TypeError
     \<or> fst (togglePanelVisibility st a b) = Threw (HookError Init)"
proof (cases rule: toggle_cases [where st = st and a = a and b = b])
  case (resolved s t)
  then show ?thesis using show_target_outcome by simp
qed simp_all

lemma toggle_calls:
  "\<exists>new. calls (snd (togglePanelVisibility st a b)) = calls st @ new
      \<and> count_hook Hide new \<le> 1 \<and> count_hook Show new \<le> 1"
proof (cases rule: toggle_cases [where st = st and a = a and b = b])
  case same
  then have "calls (snd (togglePanelVisibility st a b)) = calls st @ []" by simp
  then show ?thesis by force
next
  case no_source
  then have "calls (snd (togglePanelVisibility st a b)) = calls st @ []" by simp
  then show ?thesis by force
next
  case (no_target s)
  then have "calls (snd (togglePanelVisibility st a b)) = calls st @ []" by simp
  then show ?thesis by force
next
  case (resolved s t)
  let ?n0 = "hide_calls (window st) (ds_pageObject (document st ! s))"
  let ?h = "(restyle st a b s t)\<lparr>calls := calls st @ ?n0\<rparr>"
  obtain n1 n2 where n12:
    "calls (snd (show_target ?h (ds_pageObject (document st ! t)))) = calls ?h @ n1 @ n2"
    "count_hook Hide n1 = 0" "count_hook Show n1 = 0"
    "count_hook Hide n2 = 0" "count_hook Show n2 \<le> Suc 0"
    using show_target_calls [of ?h "ds_pageObject (document st ! t)"] by blast
  have "calls (snd (togglePanelVisibility st a b)) = calls st @ (?n0 @ n1 @ n2)"
    using resolved(4) n12(1) by simp
  moreover have "count_hook Hide (?n0 @ n1 @ n2) \<le> 1 \<and> count_hook Show (?n0 @ n1 @ n2) \<le> 1"
    using n12(2-5) count_hook_hide_calls [of "window st" "ds_pageObject (document st ! s)"]
    by simp
  ultimately show ?thesis by blast
qed

lemma receiver_set_isLoaded_same:
  "receiver w b obj = Inr (Some c) \<Longrightarrow>
     receiver (set_isLoaded w b obj) b obj = Inr (Some (c\<lparr>isLoaded := True\<rparr>))"
  by (auto simp: receiver_def set_isLoaded_def global_def
        split: jsval.splits option.splits if_splits)

lemma loaded_set_isLoaded:
  "loaded w B K \<Longrightarrow> loaded (set_isLoaded w b obj) B K"
  by (auto simp: loaded_def receiver_def set_isLoaded_def global_def
        split: jsval.splits option.splits if_splits sum.splits)

text \<open>
  Once the object of a path is marked loaded, it stays so and its \<^verbatim>\<open>init()\<close> is not
  called again, whatever transitions follow.
\<close>

lemma init_target_keeps:
  assumes "loaded (window st) B K"
  shows "loaded (window (snd (init_target st b obj))) B K
     \<and> count_calls B K Init (calls (snd (init_target st b obj)))
         = count_calls B K Init (calls st)"
proof (cases "b = B \<and> obj_key obj = K")
  case True
  then have "receiver (window st) b obj = receiver (window st) B K"
    using receiver_obj_key [of "window st" b obj] by simp
  then obtain c where "receiver (window st) b obj = Inr (Some c)" "isLoaded c"
    using assms by (auto simp: loaded_def split: sum.splits option.splits)
  then have "init_target st b obj = (Normal, st)" by (simp add: init_target_skip)
  then show ?thesis using assms by simp
next
  case False
  have w: "loaded (window (snd (init_target st b obj))) B K"
    using init_target_effect [of st b obj] assms loaded_set_isLoaded by auto
  have "count_calls B K Init (calls (snd (init_target st b obj)))
         = count_calls B K Init (calls st)"
    using init_target_effect [of st b obj] False by auto
  then show ?thesis using w by simp
qed

lemma show_target_keeps:
  assumes "loaded (window st) B K"
  shows "loaded (window (snd (show_target st code))) B K
     \<and> count_calls B K Init (calls (snd (show_target st code)))
         = count_calls B K Init (calls st)"
proof (cases "truthy code \<and> in_window (window st) (Some (pageBootstrap (the code)))")
  case False
  then show ?thesis using assms by (auto simp: show_target_def Let_def)
next
  case True
  let ?b = "pageBootstrap (the code)" and ?o = "pageObject (the code)"
  obtain r st1 where i: "init_target st ?b ?o = (r, st1)" by (cases "init_target st ?b ?o")
  have k1: "loaded (window st1) B K"
    "count_calls B K Init (calls st1) = count_calls B K Init (calls st)"
    using init_target_keeps [OF assms, of ?b ?o] i by simp_all
  show ?thesis
  proof (cases r)
    case Normal
    have "snd (show_target st code) = snd (invoke st1 ?b ?o Show)"
      using True i Normal by (simp add: show_target_def Let_def try_catch_def)
    then show ?thesis using k1 by (simp add: invoke_state count_calls_hook_calls)
  next
    case (Threw e)
    have "snd (show_target st code) = st1"
      using True i Threw by (simp add: show_target_def Let_def)
    then show ?thesis using k1 by simp
  qed
qed

lemma toggle_keeps:
  assumes "loaded (window st) B K"
  shows "loaded (window (snd (togglePanelVisibility st a b))) B K
     \<and> count_calls B K Init (calls (snd (togglePanelVisibility st a b)))
         = count_calls B K Init (calls st)"
proof (cases rule: toggle_cases [where st = st and a = a and b = b])
  case (resolved s t)
  let ?h = "(restyle st a b s t)\<lparr>calls := calls st
                @ hide_calls (window st) (ds_pageObject (document st ! s))\<rparr>"
  have "loaded (window ?h) B K" using assms by simp
  then have "loaded (window (snd (show_target ?h (ds_pageObject (document st ! t))))) B K
     \<and> count_calls B K Init (calls (snd (show_target ?h (ds_pageObject (document st ! t)))))
         = count_calls B K Init (calls ?h)"
    by (rule show_target_keeps)
  then show ?thesis using resolved(4) by simp
qed (use assms in simp_all)

lemma transitions_keep:
  "loaded (window st) B K \<Longrightarrow>
     loaded (window (transitions st ts)) B K
     \<and> count_calls B K Init (calls (transitions st ts)) = count_calls B K Init (calls st)"
proof (induction ts arbitrary: st)
  case Nil
  then show ?case by simp
next
  case (Cons p ts)
  obtain a b where p: "p = (a, b)" by (cases p)
  have k: "loaded (window (snd (togglePanelVisibility st a b))) B K"
    "count_calls B K Init (calls (snd (togglePanelVisibility st a b)))
         = count_calls B K Init (calls st)"
    using toggle_keeps [OF Cons.prems, of a b] by simp_all
  show ?case using Cons.IH [OF k(1)] k(2) p by simp
qed

text \<open>The classes after a transition between two present elements.\<close>

lemma toggle_resolved_classes:
  assumes "a \<noteq> b" "getElementById (document st) a = Some s"
    "getElementById (document st) b = Some t"
  shows "(''previous'' \<in> classList (document (snd (togglePanelVisibility st a b)) ! s))
           = js_le (ds_index (document st ! s)) (ds_index (document st ! t))
     \<and> (''previous'' \<in> classList (document (snd (togglePanelVisibility st a b)) ! t))
           = js_le (ds_index (document st ! s)) (ds_index (document st ! t))
     \<and> (''next'' \<in> classList (document (snd (togglePanelVisibility st a b)) ! s))
           = js_ge (ds_index (document st ! s)) (ds_index (document st ! t))
     \<and> (''next'' \<in> classList (document (snd (togglePanelVisibility st a b)) ! t))
           = js_ge (ds_index (document st ! s)) (ds_index (document st ! t))"
  using toggle_direction_classes [OF assms, of s] toggle_direction_classes [OF assms, of t]
  by simp

text \<open>Lines 333 to 361 on a declared path, case by case.\<close>

lemma show_target_unresolved:
  assumes "\<not> resolves (window st) code"
  shows "show_target st (Some code) = (fst (show_target st (Some code)), st)"
proof (cases "code \<noteq> [] \<and> in_window (window st) (Some (pageBootstrap code))")
  case False
  then show ?thesis by (auto simp: show_target_def truthy_def Let_def)
next
  case True
  then have r: "\<And>c. receiver (window st) (pageBootstrap code) (pageObject code) \<noteq> Inr (Some c)"
    using assms by (auto simp: resolves_def)
  show ?thesis
  proof (cases "receiver (window st) (pageBootstrap code) (pageObject code)")
    case (Inl e)
    then show ?thesis using True
      by (simp add: show_target_def truthy_def Let_def init_target_skip)
  next
    case (Inr v)
    then have v: "v = None" using r by (cases v) auto
    have "hook_calls (window st) (pageBootstrap code) (pageObject code) Show = []"
      using Inr v by (simp add: hook_calls_def)
    then show ?thesis using True Inr v
      by (simp add: show_target_def truthy_def Let_def init_target_skip try_catch_def
            invoke_state)
  qed
qed

lemma show_target_init_raises:
  assumes "code \<noteq> []" "in_window (window st) (Some (pageBootstrap code))"
    and "receiver (window st) (pageBootstrap code) (pageObject code) = Inr (Some c)"
    and "\<not> isLoaded c" "init_m c = Raises"
  shows "show_target st (Some code) =
     (Threw (HookError Init),
      st\<lparr>calls := calls st @ [(pageBootstrap code, obj_key (pageObject code), Init, False)]\<rparr>)"
  using assms by (simp add: show_target_def truthy_def Let_def init_target_call)

lemma show_target_init_returns:
  assumes "code \<noteq> []" "in_window (window st) (Some (pageBootstrap code))"
    and "receiver (window st) (pageBootstrap code) (pageObject code) = Inr (Some c)"
    and "\<not> isLoaded c" "init_m c = Returns"
  shows "show_target st (Some code) =
     try_catch (invoke
       (st\<lparr>calls := calls st @ [(pageBootstrap code, obj_key (pageObject code), Init, False)],
           window := set_isLoaded (window st) (pageBootstrap code) (pageObject code)\<rparr>)
       (pageBootstrap code) (pageObject code) Show)"
  using assms by (simp add: show_target_def truthy_def Let_def init_target_call)

lemma show_calls_after_init:
  assumes "receiver w b obj = Inr (Some c)"
  shows "hook_calls (set_isLoaded w b obj) b obj Show =
     (if show_m c = Absent then [] else [(b, obj_key obj, Show, True)])"
  using receiver_set_isLoaded_same [OF assms]
  by (simp add: hook_calls_def method_of_def)

lemma init_raises_state:
  assumes "a \<noteq> b" "getElementById (document st) a = Some s"
    "getElementById (document st) b = Some t"
    and "ds_pageObject (document st ! t) = Some code" "code \<noteq> []"
    and "in_window (window st) (Some (pageBootstrap code))"
    and "receiver (window st) (pageBootstrap code) (pageObject code) = Inr (Some c)"
    and "\<not> isLoaded c" "init_m c = Raises"
  shows "togglePanelVisibility st a b =
     (Threw (HookError Init),
      (restyle st a b s t)\<lparr>calls := calls st
          @ hide_calls (window st) (ds_pageObject (document st ! s))
          @ [(pageBootstrap code, obj_key (pageObject code), Init, False)]\<rparr>)"
  unfolding toggle_resolved_state [OF assms(1-3)] assms(4)
  using assms(5-9) by (simp add: show_target_init_raises)

lemma init_returns_state:
  assumes "a \<noteq> b" "getElementById (document st) a = Some s"
    "getElementById (document st) b = Some t"
    and "ds_pageObject (document st ! t) = Some code" "code \<noteq> []"
    and "in_window (window st) (Some (pageBootstrap code))"
    and "receiver (window st) (pageBootstrap code) (pageObject code) = Inr (Some c)"
    and "\<not> isLoaded c" "init_m c = Returns"
  shows "togglePanelVisibility st a b =
     try_catch (invoke
       ((restyle st a b s t)\<lparr>calls := calls st
            @ hide_calls (window st) (ds_pageObject (document st ! s))
            @ [(pageBootstrap code, obj_key (pageObject code), Init, False)],
          window := set_isLoaded (window st) (pageBootstrap code) (pageObject code)\<rparr>)
       (pageBootstrap code) (pageObject code) Show)"
  unfolding toggle_resolved_state [OF assms(1-3)] assms(4)
  using assms(5-9) by (simp add: show_target_init_returns)

text \<open>
  Claim C8, amended. No transition ends with an error thrown by \<^verbatim>\<open>hide()\<close> of the
  source's object or by \<^verbatim>\<open>show()\<close> of the target's object, and a transition calls
  each of the two at most once. An error thrown by \<^verbatim>\<open>init()\<close> of a target object
  that is there and not loaded does leave the transition, and it does so after the class
  changes (the target panel is the visible one, both panels carry the direction classes)
  and after the call of the source's \<^verbatim>\<open>hide()\<close>, which precedes it in the call log;
  \<^verbatim>\<open>show()\<close> is not called and the object stays unloaded.
\<close>

theorem C8_hide_show_errors_discarded:
  "fst (togglePanelVisibility st a b) \<noteq> Threw (HookError Hide)
   \<and> fst (togglePanelVisibility st a b) \<noteq> Threw (HookError Show)
   \<and> (\<exists>new. calls (snd (togglePanelVisibility st a b)) = calls st @ new
         \<and> count_hook Hide new \<le> 1 \<and> count_hook Show new \<le> 1)
   \<and> (a \<noteq> b \<and> getElementById (document st) a = Some s
        \<and> getElementById (document st) b = Some t
        \<and> role_panel (document st ! t)
        \<and> ds_pageObject (document st ! t) = Some code \<and> code \<noteq> []
        \<and> in_window (window st) (Some (pageBootstrap code))
        \<and> receiver (window st) (pageBootstrap code) (pageObject code) = Inr (Some c)
        \<and> \<not> isLoaded c \<and> init_m c = Raises
      \<longrightarrow> fst (togglePanelVisibility st a b) = Threw (HookError Init)
        \<and> querySelectorAll (document (snd (togglePanelVisibility st a b))) sel_panel_visible
             = [t]
        \<and> (''previous'' \<in> classList (document (snd (togglePanelVisibility st a b)) ! s))
             = js_le (ds_index (document st ! s)) (ds_index (document st ! t))
        \<and> (''previous'' \<in> classList (document (snd (togglePanelVisibility st a b)) ! t))
             = js_le (ds_index (document st ! s)) (ds_index (document st ! t))
        \<and> (''next'' \<in> classList (document (snd (togglePanelVisibility st a b)) ! s))
             = js_ge (ds_index (document st ! s)) (ds_index (document st ! t))
        \<and> (''next'' \<in> classList (document (snd (togglePanelVisibility st a b)) ! t))
             = js_ge (ds_index (document st ! s)) (ds_index (document st ! t))
        \<and> calls (snd (togglePanelVisibility st a b))
             = calls st @ hide_calls (window st) (ds_pageObject (document st ! s))
                 @ [(pageBootstrap code, obj_key (pageObject code), Init, False)]
        \<and> window (snd (togglePanelVisibility st a b)) = window st)"
    (is "?A \<and> ?B \<and> ?C \<and> (?H \<longrightarrow> ?D)")
proof -
  have out: "?A \<and> ?B" using toggle_outcome [of st a b] by auto
  have once: ?C by (rule toggle_calls)
  have init: ?D if h: ?H
  proof -
    have r: "a \<noteq> b" "getElementById (document st) a = Some s"
      "getElementById (document st) b = Some t"
      using h by simp_all
    have eq: "togglePanelVisibility st a b =
       (Threw (HookError Init),
        (restyle st a b s t)\<lparr>calls := calls st
            @ hide_calls (window st) (ds_pageObject (document st ! s))
            @ [(pageBootstrap code, obj_key (pageObject code), Init, False)]\<rparr>)"
      using h by (intro init_raises_state [where c = c]) simp_all
    have vis: "querySelectorAll (document (snd (togglePanelVisibility st a b)))
        sel_panel_visible = [t]"
      using r h by (intro toggle_resolved_visible) simp_all
    have "fst (togglePanelVisibility st a b) = Threw (HookError Init)"
      "calls (snd (togglePanelVisibility st a b))
             = calls st @ hide_calls (window st) (ds_pageObject (document st ! s))
                 @ [(pageBootstrap code, obj_key (pageObject code), Init, False)]"
      "window (snd (togglePanelVisibility st a b)) = window st"
      unfolding eq by simp_all
    then show ?thesis using vis toggle_resolved_classes [OF r] by blast
  qed
  show ?thesis using out once init by blast
qed

lemma unresolved_same_path:
  assumes "\<not> resolves w code"
  shows "count_calls (pageBootstrap code) (obj_key (pageObject code)) h (hide_calls w code') = 0"
proof (cases "hide_calls w code' = []")
  case True
  then show ?thesis by simp
next
  case False
  let ?b = "pageBootstrap (the code')" and ?o = "pageObject (the code')"
  have hc: "hide_calls w code' = hook_calls w ?b ?o Hide"
    using False by (simp add: hide_calls_def split: if_splits)
  then obtain c where rc: "receiver w ?b ?o = Inr (Some c)"
    using False hook_calls_cases [of w ?b ?o Hide] by auto
  have "\<not> (?b = pageBootstrap code \<and> obj_key ?o = obj_key (pageObject code))"
  proof
    assume eq: "?b = pageBootstrap code \<and> obj_key ?o = obj_key (pageObject code)"
    have "receiver w (pageBootstrap code) (pageObject code) = receiver w ?b ?o"
      using eq receiver_obj_key [of w "pageBootstrap code" "pageObject code"]
        receiver_obj_key [of w ?b ?o]
      by simp
    then have r: "receiver w (pageBootstrap code) (pageObject code) = Inr (Some c)"
      using rc by simp
    then have "resolves w code"
      using receiver_object_in_window [OF r] by (simp add: resolves_def)
    then show False using assms by simp
  qed
  then show ?thesis unfolding hc by (rule count_calls_hook_calls(2))
qed

text \<open>
  Claim C7, amended. For a transition between two present elements whose target is a
  panel that declares a controller path, the class changes are all made: the target is
  the only visible panel and both panels carry the direction classes. When the path does
  not resolve, the call log gains only what the source's \<^verbatim>\<open>hide()\<close> adds: no
  lifecycle method of the target's path is called, nor any \<^verbatim>\<open>init()\<close> or
  \<^verbatim>\<open>show()\<close>. When the path resolves to an object that is not loaded and whose
  \<^verbatim>\<open>init()\<close> returns, the transition returns normally, \<^verbatim>\<open>init()\<close> is called
  exactly once, on the unloaded object, \<^verbatim>\<open>show()\<close> is called after it on the object
  already marked loaded, and no later transition calls \<^verbatim>\<open>init()\<close> of that object
  again.
\<close>

theorem C7_target_lifecycle:
  assumes "a \<noteq> b"
    and "getElementById (document st) a = Some s"
    and "getElementById (document st) b = Some t"
    and "role_panel (document st ! t)"
    and "ds_pageObject (document st ! t) = Some code" and "code \<noteq> []"
  shows "querySelectorAll (document (snd (togglePanelVisibility st a b))) sel_panel_visible = [t]
     \<and> (''previous'' \<in> classList (document (snd (togglePanelVisibility st a b)) ! s))
          = js_le (ds_index (document st ! s)) (ds_index (document st ! t))
     \<and> (''previous'' \<in> classList (document (snd (togglePanelVisibility st a b)) ! t))
          = js_le (ds_index (document st ! s)) (ds_index (document st ! t))
     \<and> (''next'' \<in> classList (document (snd (togglePanelVisibility st a b)) ! s))
          = js_ge (ds_index (document st ! s)) (ds_index (document st ! t))
     \<and> (''next'' \<in> classList (document (snd (togglePanelVisibility st a b)) ! t))
          = js_ge (ds_index (document st ! s)) (ds_index (document st ! t))
     \<and> (\<not> resolves (window st) code \<longrightarrow>
            calls (snd (togglePanelVisibility st a b))
              = calls st @ hide_calls (window st) (ds_pageObject (document st ! s))
          \<and> window (snd (togglePanelVisibility st a b)) = window st
          \<and> (\<forall>h. count_calls (pageBootstrap code) (obj_key (pageObject code)) h
                    (calls (snd (togglePanelVisibility st a b)))
                  = count_calls (pageBootstrap code) (obj_key (pageObject code)) h (calls st))
          \<and> count_hook Init (calls (snd (togglePanelVisibility st a b)))
              = count_hook Init (calls st)
          \<and> count_hook Show (calls (snd (togglePanelVisibility st a b)))
              = count_hook Show (calls st))
     \<and> (resolves (window st) code
          \<and> receiver (window st) (pageBootstrap code) (pageObject code) = Inr (Some c)
          \<and> \<not> isLoaded c \<and> init_m c = Returns \<longrightarrow>
            fst (togglePanelVisibility st a b) = Normal
          \<and> try_catch (invoke
                ((restyle st a b s t)\<lparr>calls := calls st
                     @ hide_calls (window st) (ds_pageObject (document st ! s))
                     @ [(pageBootstrap code, obj_key (pageObject code), Init, False)],
                   window := set_isLoaded (window st) (pageBootstrap code) (pageObject code)\<rparr>)
                (pageBootstrap code) (pageObject code) Show)
              = togglePanelVisibility st a b
          \<and> calls (snd (togglePanelVisibility st a b))
              = calls st @ hide_calls (window st) (ds_pageObject (document st ! s))
                  @ [(pageBootstrap code, obj_key (pageObject code), Init, False)]
                  @ (if show_m c = Absent then []
                     else [(pageBootstrap code, obj_key (pageObject code), Show, True)])
          \<and> receiver (window (snd (togglePanelVisibility st a b)))
                (pageBootstrap code) (pageObject code) = Inr (Some (c\<lparr>isLoaded := True\<rparr>))
          \<and> count_calls (pageBootstrap code) (obj_key (pageObject code)) Init
                (calls (snd (togglePanelVisibility st a b)))
              = count_calls (pageBootstrap code) (obj_key (pageObject code)) Init (calls st) + 1
          \<and> (\<forall>ts. count_calls (pageBootstrap code) (obj_key (pageObject code)) Init
                     (calls (transitions (snd (togglePanelVisibility st a b)) ts))
                = count_calls (pageBootstrap code) (obj_key (pageObject code)) Init (calls st) + 1))"
    (is "?V \<and> ?P1 \<and> ?P2 \<and> ?N1 \<and> ?N2 \<and> (?U \<longrightarrow> ?Q1) \<and> (?H2 \<longrightarrow> ?Q2)")
proof -
  let ?tb = "pageBootstrap code" and ?to = "pageObject code"
  let ?st' = "snd (togglePanelVisibility st a b)"
  let ?n0 = "hide_calls (window st) (ds_pageObject (document st ! s))"
  let ?h = "(restyle st a b s t)\<lparr>calls := calls st @ ?n0\<rparr>"
  have vis: ?V by (rule toggle_resolved_visible [OF assms(1-4)])
  have cls: "?P1 \<and> ?P2 \<and> ?N1 \<and> ?N2" by (rule toggle_resolved_classes [OF assms(1-3)])
  have q1: ?Q1 if un: ?U
  proof -
    have "\<not> resolves (window ?h) code" using un by simp
    then have "snd (show_target ?h (Some code)) = ?h"
      using show_target_unresolved [of ?h code] by (metis snd_conv)
    then have st': "?st' = ?h"
      unfolding toggle_resolved_state [OF assms(1-3)] assms(5) .
    have "count_calls ?tb (obj_key ?to) h ?n0 = 0" for h
      using un by (rule unresolved_same_path)
    then show ?thesis
      unfolding st' using count_hook_hide_calls [of "window st" "ds_pageObject (document st ! s)"]
      by simp
  qed
  have q2: ?Q2 if h: ?H2
  proof -
    have inw: "in_window (window st) (Some ?tb)" using h by (simp add: resolves_def)
    have rc: "receiver (window st) ?tb ?to = Inr (Some c)"
      and c: "\<not> isLoaded c" "init_m c = Returns"
      using h by simp_all
    let ?st1 = "(restyle st a b s t)\<lparr>calls := calls st @ ?n0 @ [(?tb, obj_key ?to, Init, False)],
                  window := set_isLoaded (window st) ?tb ?to\<rparr>"
    have eq: "togglePanelVisibility st a b = try_catch (invoke ?st1 ?tb ?to Show)"
      by (rule init_returns_state [OF assms(1-3,5,6) inw rc c])
    have r1: "receiver (window ?st1) ?tb ?to = Inr (Some (c\<lparr>isLoaded := True\<rparr>))"
      using receiver_set_isLoaded_same [OF rc] by simp
    have sh: "hook_calls (window ?st1) ?tb ?to Show =
        (if show_m c = Absent then [] else [(?tb, obj_key ?to, Show, True)])"
      using show_calls_after_init [OF rc] by simp
    have nrm: "fst (togglePanelVisibility st a b) = Normal"
      unfolding eq by (simp add: try_catch_def)
    have st': "?st' = ?st1\<lparr>calls := calls ?st1 @ hook_calls (window ?st1) ?tb ?to Show\<rparr>"
      unfolding eq by (simp add: try_catch_def invoke_state)
    have cs: "calls ?st' = calls st @ ?n0 @ [(?tb, obj_key ?to, Init, False)]
        @ (if show_m c = Absent then [] else [(?tb, obj_key ?to, Show, True)])"
      unfolding st' sh by simp
    have w: "window ?st' = set_isLoaded (window st) ?tb ?to"
      unfolding st' by simp
    have r': "receiver (window ?st') ?tb ?to = Inr (Some (c\<lparr>isLoaded := True\<rparr>))"
      unfolding w by (rule receiver_set_isLoaded_same [OF rc])
    have l: "loaded (window ?st') ?tb (obj_key ?to)"
      using r' by (simp add: loaded_def receiver_obj_key)
    have cnt: "count_calls ?tb (obj_key ?to) Init (calls ?st')
       = count_calls ?tb (obj_key ?to) Init (calls st) + 1"
      unfolding cs by simp
    have later: "\<forall>ts. count_calls ?tb (obj_key ?to) Init (calls (transitions ?st' ts))
       = count_calls ?tb (obj_key ?to) Init (calls st) + 1"
      using transitions_keep [OF l] cnt by simp
    show ?thesis using nrm eq [symmetric] cs r' cnt later by blast
  qed
  show ?thesis using vis cls q1 q2 by blast
qed

lemma el_id_class_ops [simp]:
  "el_id (classList_add c e) = el_id e"
  "el_id (classList_remove c e) = el_id e"
  "el_id (classList_toggle c e) = el_id e"
  "el_id (classList_toggle_force c f e) = el_id e"
  "el_id (strip_visible e) = el_id e"
  by (simp_all add: classList_add_def classList_remove_def classList_toggle_def
        classList_toggle_force_def strip_visible_def)

lemma find_first_map: "find_first (\<lambda>e. f e = i) d = find_first (\<lambda>x. x = i) (map f d)"
  by (induction d) simp_all

lemma getElementById_toggle_classes:
  assumes "s < length d" "t < length d" "s \<noteq> t"
  shows "getElementById (toggle_classes d s t) i = getElementById d i"
proof -
  have "map el_id (toggle_classes d s t) = map el_id d"
    using assms by (intro nth_equalityI) (simp_all add: nth_toggle_classes)
  then show ?thesis
    by (simp add: getElementById_def find_first_map [of el_id])
qed

lemma Settings_path [simp]:
  "pageBootstrap ''Settings'' = ''Settings''" "pageObject ''Settings'' = None"
  by (simp_all add: pageBootstrap_def pageObject_def)

lemma Home_path [simp]:
  "pageBootstrap ''Home'' = ''Home''" "pageObject ''Home'' = None"
  by (simp_all add: pageBootstrap_def pageObject_def)

lemma Store_Library_path [simp]:
  "pageBootstrap ''Store.Library'' = ''Store''" "pageObject ''Store.Library'' = Some ''Library''"
  by (simp_all add: pageBootstrap_def pageObject_def)

lemma obj_key_None [simp]: "obj_key None = None"
  by (simp add: obj_key_def truthy_def)

lemma hide_calls_None [simp]: "hide_calls w None = []"
  by (simp add: hide_calls_def truthy_def)

lemma failing_init_document:
  "document failing_init_state =
     [\<lparr>el_id = ''home'', role_panel = True, classList = {''next'', ''visible''},
        ds_index = Some ''0'', ds_previousPageId = None, ds_pageObject = Some ''Home''\<rparr>,
      \<lparr>el_id = ''library'', role_panel = True, classList = {''next''},
        ds_index = Some ''1'', ds_previousPageId = None, ds_pageObject = None\<rparr>,
      \<lparr>el_id = ''settings'', role_panel = True, classList = {''next''},
        ds_index = Some ''2'', ds_previousPageId = None, ds_pageObject = Some ''Settings''\<rparr>]"
  by (simp add: failing_init_state_def init_panels_def forEach_indexed_def querySelectorAll_def
        sel_panel_def panel_element_def update_at_def classList_add_def upt_rec
        string_of_nat.simps digit_def insert_commute)

lemma failing_init_facts:
  "getElementById (document failing_init_state) ''home'' = Some 0"
  "getElementById (document failing_init_state) ''settings'' = Some 2"
  "role_panel (document failing_init_state ! 2)"
  "ds_pageObject (document failing_init_state ! 2) = Some ''Settings''"
  "ds_pageObject (document failing_init_state ! 0) = Some ''Home''"
  "ds_index (document failing_init_state ! 0) = Some ''0''"
  "ds_index (document failing_init_state ! 2) = Some ''2''"
  "calls failing_init_state = []"
  by (simp_all add: failing_init_document getElementById_def)
     (simp add: failing_init_state_def)

lemma failing_init_window:
  "in_window (window failing_init_state) (Some ''Settings'')"
  "receiver (window failing_init_state) ''Settings'' None
     = Inr (Some (page_object Raises Returns Returns))"
  "hide_calls (window failing_init_state) (Some ''Home'') = [(''Home'', None, Hide, False)]"
  by (simp_all add: failing_init_state_def in_window_def prop_key_def receiver_def global_def
        truthy_def hide_calls_def hook_calls_def method_of_def page_object_def)

lemma page_object_simps [simp]:
  "init_m (page_object i s h) = i" "show_m (page_object i s h) = s"
  "hide_m (page_object i s h) = h" "isLoaded (page_object i s h) = False"
  by (simp_all add: page_object_def)

text \<open>
  Claim C8 as stated fails for \<^verbatim>\<open>init()\<close>: lines 341 and 346 call it outside any
  \<^verbatim>\<open>try\<close>, so an error it throws leaves the transition.
\<close>

theorem C8_counterexample:
  "init_m (page_object Raises Returns Returns) = Raises
   \<and> receiver (window failing_init_state) ''Settings'' None
        = Inr (Some (page_object Raises Returns Returns))
   \<and> ds_pageObject (document failing_init_state ! 2) = Some ''Settings''
   \<and> getElementById (document failing_init_state) ''settings'' = Some 2
   \<and> getElementById (document failing_init_state) ''home'' = Some 0
   \<and> fst (togglePanelVisibility failing_init_state ''home'' ''settings'')
        = Threw (HookError Init)"
proof -
  have ne: "''home'' \<noteq> ''settings''" by simp
  have "togglePanelVisibility failing_init_state ''home'' ''settings'' =
     (Threw (HookError Init),
      (restyle failing_init_state ''home'' ''settings'' 0 2)\<lparr>calls := calls failing_init_state
          @ hide_calls (window failing_init_state) (ds_pageObject (document failing_init_state ! 0))
          @ [(pageBootstrap ''Settings'', obj_key (pageObject ''Settings''), Init, False)]\<rparr>)"
    by (rule init_raises_state [OF ne failing_init_facts(1,2,4),
          where c = "page_object Raises Returns Returns"])
       (simp_all add: failing_init_window)
  then show ?thesis by (simp add: failing_init_facts failing_init_window)
qed

theorem C8_hide_show_errors_discarded_witness:
  "''home'' \<noteq> ''settings''
   \<and> getElementById (document failing_init_state) ''home'' = Some 0
   \<and> getElementById (document failing_init_state) ''settings'' = Some 2
   \<and> role_panel (document failing_init_state ! 2)
   \<and> ds_pageObject (document failing_init_state ! 2) = Some ''Settings'' \<and> ''Settings'' \<noteq> []
   \<and> in_window (window failing_init_state) (Some (pageBootstrap ''Settings''))
   \<and> receiver (window failing_init_state) (pageBootstrap ''Settings'') (pageObject ''Settings'')
        = Inr (Some (page_object Raises Returns Returns))
   \<and> \<not> isLoaded (page_object Raises Returns Returns)
   \<and> init_m (page_object Raises Returns Returns) = Raises
   \<and> fst (togglePanelVisibility failing_init_state ''home'' ''settings'')
        = Threw (HookError Init)
   \<and> querySelectorAll (document (snd (togglePanelVisibility failing_init_state ''home''
         ''settings''))) sel_panel_visible = [2]
   \<and> ''previous'' \<in> classList (document (snd (togglePanelVisibility failing_init_state ''home''
         ''settings'')) ! 0)
   \<and> ''next'' \<notin> classList (document (snd (togglePanelVisibility failing_init_state ''home''
         ''settings'')) ! 0)
   \<and> ''previous'' \<in> classList (document (snd (togglePanelVisibility failing_init_state ''home''
         ''settings'')) ! 2)
   \<and> ''next'' \<notin> classList (document (snd (togglePanelVisibility failing_init_state ''home''
         ''settings'')) ! 2)
   \<and> calls (snd (togglePanelVisibility failing_init_state ''home'' ''settings''))
        = [(''Home'', None, Hide, False), (''Settings'', None, Init, False)]
   \<and> fst (togglePanelVisibility failing_init_state ''home'' ''settings'')
        \<noteq> Threw (HookError Hide)"
proof -
  have le: "js_le (Some ''0'') (Some ''2'')" and ge: "\<not> js_ge (Some ''0'') (Some ''2'')"
    by (simp_all add: js_le_def js_ge_def)
  show ?thesis
    using C8_hide_show_errors_discarded [of failing_init_state "''home''" "''settings''" 0 2
        "''Settings''" "page_object Raises Returns Returns"]
      le ge
    by (simp add: failing_init_facts failing_init_window)
qed

text \<open>
  Claim C7 as stated fails when \<^verbatim>\<open>init()\<close> throws: the path resolves and the
  object is not loaded, yet \<^verbatim>\<open>isLoaded\<close> stays unset, \<^verbatim>\<open>show()\<close> is not called,
  and the next transition to the same target calls \<^verbatim>\<open>init()\<close> again.
\<close>

theorem C7_counterexample:
  "ds_pageObject (document failing_init_state ! 2) = Some ''Settings''
   \<and> resolves (window failing_init_state) ''Settings''
   \<and> \<not> loaded (window failing_init_state) ''Settings'' None
   \<and> init_m (page_object Raises Returns Returns) = Raises
   \<and> calls (snd (togglePanelVisibility failing_init_state ''home'' ''settings''))
        = [(''Home'', None, Hide, False), (''Settings'', None, Init, False)]
   \<and> \<not> loaded (window (snd (togglePanelVisibility failing_init_state ''home'' ''settings'')))
          ''Settings'' None
   \<and> calls (transitions failing_init_state [(''home'', ''settings''), (''home'', ''settings'')])
        = [(''Home'', None, Hide, False), (''Settings'', None, Init, False),
           (''Home'', None, Hide, False), (''Settings'', None, Init, False)]"
proof -
  let ?c = "page_object Raises Returns Returns"
  let ?st1 = "(restyle failing_init_state ''home'' ''settings'' 0 2)
      \<lparr>calls := [(''Home'', None, Hide, False), (''Settings'', None, Init, False)]\<rparr>"
  have ne: "''home'' \<noteq> ''settings''" by simp
  have rs: "resolves (window failing_init_state) ''Settings''"
    "\<not> loaded (window failing_init_state) ''Settings'' None"
    by (simp_all add: resolves_def loaded_def failing_init_window)
  have first: "togglePanelVisibility failing_init_state ''home'' ''settings''
      = (Threw (HookError Init), ?st1)"
    using init_raises_state [OF ne failing_init_facts(1,2,4), where c = ?c]
    by (simp add: failing_init_facts failing_init_window)
  have d1: "document ?st1 = toggle_classes (document failing_init_state) 0 2"
    by simp
  have len: "length (document failing_init_state) = 3"
    by (simp add: failing_init_document)
  have src1: "getElementById (document ?st1) ''home'' = Some 0"
    and tgt1: "getElementById (document ?st1) ''settings'' = Some 2"
    unfolding d1 by (simp_all add: getElementById_toggle_classes len failing_init_facts)
  have code1: "ds_pageObject (document ?st1 ! 2) = Some ''Settings''"
    "ds_pageObject (toggle_classes (document failing_init_state) 0 2 ! 0) = Some ''Home''"
    unfolding d1 by (simp_all add: ds_pageObject_toggle_classes len failing_init_facts)
  have w1: "window ?st1 = window failing_init_state" by simp
  have second: "togglePanelVisibility ?st1 ''home'' ''settings'' =
     (Threw (HookError Init),
      (restyle ?st1 ''home'' ''settings'' 0 2)\<lparr>calls := calls ?st1
          @ hide_calls (window ?st1) (ds_pageObject (document ?st1 ! 0))
          @ [(pageBootstrap ''Settings'', obj_key (pageObject ''Settings''), Init, False)]\<rparr>)"
    by (rule init_raises_state [OF ne src1 tgt1 code1(1), where c = ?c])
       (simp_all add: failing_init_window)
  have cs2: "calls (snd (togglePanelVisibility ?st1 ''home'' ''settings''))
      = [(''Home'', None, Hide, False), (''Settings'', None, Init, False),
         (''Home'', None, Hide, False), (''Settings'', None, Init, False)]"
    unfolding second by (simp add: code1 failing_init_window)
  have l1: "\<not> loaded (window ?st1) ''Settings'' None"
    by (simp add: loaded_def failing_init_window)
  show ?thesis
    using rs l1 cs2 by (simp add: first failing_init_facts)
qed

lemma example_window_facts:
  "\<not> resolves example_window ''Store.Library''"
  "resolves example_window ''Settings''"
  "receiver example_window ''Settings'' None
     = Inr (Some (page_object Returns Returns Raises))"
  by (simp_all add: resolves_def receiver_def global_def truthy_def example_window_def
        in_window_def prop_key_def)

lemma example_document_facts:
  "role_panel (document example_state ! 1)" "role_panel (document example_state ! 2)"
  "ds_pageObject (document example_state ! 1) = Some ''Store.Library''"
  "ds_pageObject (document example_state ! 2) = Some ''Settings''"
  by (simp_all add: example_document_eq)

theorem C7_target_lifecycle_witness:
  "''home'' \<noteq> ''library''
   \<and> getElementById (document example_state) ''home'' = Some 0
   \<and> getElementById (document example_state) ''library'' = Some 1
   \<and> role_panel (document example_state ! 1)
   \<and> ds_pageObject (document example_state ! 1) = Some ''Store.Library''
   \<and> ''Store.Library'' \<noteq> []
   \<and> \<not> resolves (window example_state) ''Store.Library''
   \<and> querySelectorAll (document (snd (togglePanelVisibility example_state ''home'' ''library'')))
        sel_panel_visible = [1]
   \<and> ''previous'' \<in> classList (document (snd (togglePanelVisibility example_state ''home''
        ''library'')) ! 0)
   \<and> ''next'' \<notin> classList (document (snd (togglePanelVisibility example_state ''home''
        ''library'')) ! 1)
   \<and> calls (snd (togglePanelVisibility example_state ''home'' ''library'')) = []
   \<and> ''home'' \<noteq> ''settings''
   \<and> getElementById (document example_state) ''settings'' = Some 2
   \<and> role_panel (document example_state ! 2)
   \<and> ds_pageObject (document example_state ! 2) = Some ''Settings''
   \<and> resolves (window example_state) ''Settings''
   \<and> receiver (window example_state) ''Settings'' None
        = Inr (Some (page_object Returns Returns Raises))
   \<and> \<not> isLoaded (page_object Returns Returns Raises)
   \<and> init_m (page_object Returns Returns Raises) = Returns
   \<and> fst (togglePanelVisibility example_state ''home'' ''settings'') = Normal
   \<and> querySelectorAll (document settings_state) sel_panel_visible = [2]
   \<and> ''previous'' \<in> classList (document settings_state ! 2)
   \<and> calls settings_state = [(''Settings'', None, Init, False), (''Settings'', None, Show, True)]
   \<and> loaded (window settings_state) ''Settings'' None
   \<and> count_calls ''Settings'' None Init
        (calls (transitions settings_state [(''settings'', ''home''), (''home'', ''settings'')])) = 1"
proof -
  have ne1: "''home'' \<noteq> ''library''" and ne2: "''home'' \<noteq> ''settings''" by simp_all
  have src: "getElementById (document example_state) ''home'' = Some 0"
    and lib: "getElementById (document example_state) ''library'' = Some 1"
    and set: "getElementById (document example_state) ''settings'' = Some 2"
    by (simp_all add: example_ids)
  have nonempty: "''Store.Library'' \<noteq> []" "''Settings'' \<noteq> []" by simp_all
  have le: "js_le (Some ''0'') (Some ''1'')" "\<not> js_ge (Some ''0'') (Some ''1'')"
    "js_le (Some ''0'') (Some ''2'')" "\<not> js_ge (Some ''0'') (Some ''2'')"
    by (simp_all add: js_le_def js_ge_def)
  note p1 = C7_target_lifecycle [OF ne1 src lib example_document_facts(1,3) nonempty(1),
      of "page_object Returns Returns Raises"]
  note p2 = C7_target_lifecycle [OF ne2 src set example_document_facts(2,4) nonempty(2),
      of "page_object Returns Returns Raises"]
  have r1: "querySelectorAll (document (snd (togglePanelVisibility example_state ''home''
        ''library''))) sel_panel_visible = [1]"
    "''previous'' \<in> classList (document (snd (togglePanelVisibility example_state ''home''
        ''library'')) ! 0)"
    "''next'' \<notin> classList (document (snd (togglePanelVisibility example_state ''home''
        ''library'')) ! 1)"
    "calls (snd (togglePanelVisibility example_state ''home'' ''library'')) = []"
    using p1 le by (simp_all add: example_window_facts example_document_eq)
  have r2: "fst (togglePanelVisibility example_state ''home'' ''settings'') = Normal"
    "querySelectorAll (document settings_state) sel_panel_visible = [2]"
    "''previous'' \<in> classList (document settings_state ! 2)"
    "calls settings_state = [(''Settings'', None, Init, False), (''Settings'', None, Show, True)]"
    "receiver (window settings_state) ''Settings'' None
       = Inr (Some (page_object Returns Returns Raises\<lparr>isLoaded := True\<rparr>))"
    "\<forall>ts. count_calls ''Settings'' None Init (calls (transitions settings_state ts)) = 1"
    using p2 le unfolding settings_state_def
    by (simp_all add: example_window_facts example_document_eq)
  have r3: "count_calls ''Settings'' None Init
        (calls (transitions settings_state [(''settings'', ''home''), (''home'', ''settings'')])) = 1"
    using r2(6) by (rule spec)
  have l: "loaded (window settings_state) ''Settings'' None"
    using r2(5) by (simp add: loaded_def)
  show ?thesis
    using ne1 ne2 src lib set r1 r2(1-4) r3 l
    by (simp add: example_window_facts example_document_eq del: transitions.simps)
qed

subsection \<open>The Escape key\<close>

lemma show_target_isKeyDown [simp]: "isKeyDown (snd (show_target st code)) = isKeyDown st"
  using show_target_frame [of st code] by (simp add: lifecycle_frame_def)

lemma toggle_isKeyDown [simp]:
  "isKeyDown (snd (togglePanelVisibility st a b)) = isKeyDown st"
  by (cases rule: toggle_cases [where st = st and a = a and b = b]) simp_all

lemma root_state_eq: "root_state = navigate example_state [] ''settings''"
  unfolding root_state_def
  by (simp add: toggle_missing_source getElementById_def)

lemma root_state_simps:
  "previousPanelId root_state = ''root''" "currentPanelId root_state = ''settings''"
  "isKeyDown root_state = False" "document root_state = example_document"
  "length (history root_state) = 1"
  by (simp_all add: root_state_eq navigate_def)

lemma unselect_example_document:
  "document st = example_document \<Longrightarrow> unselect st = st"
  by (simp add: unselect_def querySelector_def sel_selected_def example_document_eq)

text \<open>
  Claim C9 as stated fails when the back transition throws: line 245 sets the guard only
  after line 244 has returned. With the previous panel id \<^verbatim>\<open>root\<close>, which the code
  itself writes for a source without an id and which names no element, the first Escape
  ends in a TypeError with the guard clear, and the second Escape, before any key-up, runs
  another transition and pushes another history entry.
\<close>

theorem C9_counterexample:
  "previousPanelId root_state = ''root'' \<and> currentPanelId root_state = ''settings''
   \<and> \<not> isKeyDown root_state
   \<and> fst (handleKeyDown root_state ''Escape'') = Threw TypeError
   \<and> \<not> isKeyDown (snd (handleKeyDown root_state ''Escape''))
   \<and> length (history (snd (handleKeyDown root_state ''Escape''))) = 2
   \<and> handleKeyDown (snd (handleKeyDown root_state ''Escape'')) ''Escape''
        \<noteq> (Normal, snd (handleKeyDown root_state ''Escape''))
   \<and> length (history (snd (handleKeyDown (snd (handleKeyDown root_state ''Escape''))
        ''Escape''))) = 3"
proof -
  let ?st1 = "navigate root_state ''settings'' ''root''"
  have un: "unselect root_state = root_state"
    by (rule unselect_example_document) (simp add: root_state_simps)
  have t1: "togglePanelVisibility root_state ''settings'' ''root'' = (Threw TypeError, ?st1)"
    by (rule toggle_missing_target [where s = 2])
       (simp_all add: root_state_simps example_ids getElementById_def example_document_eq)
  have e1: "handleKeyDown root_state ''Escape'' = (Threw TypeError, ?st1)"
    by (simp add: handleKeyDown_Escape root_state_simps un t1)
  have p1: "previousPanelId ?st1 = ''settings''" "currentPanelId ?st1 = ''root''"
    "isKeyDown ?st1 = False" "document ?st1 = example_document"
    "length (history ?st1) = 2"
    by (simp_all add: navigate_def root_state_simps)
  have un1: "unselect ?st1 = ?st1"
    by (rule unselect_example_document) (rule p1(4))
  have t2: "togglePanelVisibility ?st1 ''root'' ''settings''
      = (Normal, navigate ?st1 ''root'' ''settings'')"
    by (rule toggle_missing_source)
       (simp_all add: root_state_simps example_document_eq getElementById_def)
  have e2: "handleKeyDown ?st1 ''Escape''
      = (Normal, (navigate ?st1 ''root'' ''settings'')\<lparr>isKeyDown := True\<rparr>)"
    using handleKeyDown_Escape [of ?st1] p1(1-3) by (simp add: un1 t2)
  have h3: "length (history ((navigate ?st1 ''root'' ''settings'')\<lparr>isKeyDown := True\<rparr>)) = 3"
    using p1(5) by (simp add: navigate_def)
  have "(navigate ?st1 ''root'' ''settings'')\<lparr>isKeyDown := True\<rparr> \<noteq> ?st1"
    using h3 p1(5) by (metis numeral_eq_iff semiring_norm(88))
  then show ?thesis
    unfolding e1 using e2 h3 p1 by (simp add: root_state_simps)
qed

text \<open>
  Claim C9, amended. While \<^verbatim>\<open>isKeyDown\<close> is set, a key-down of any key, Escape
  included, does nothing; a key-up clears the guard and changes nothing else. An Escape
  key-down with the guard clear and both panel ids known runs the transition from the
  current to the previous panel: when that transition returns, the guard is set, so that
  the next Escape key-down does nothing; when it throws, the error leaves the handler and
  the guard stays clear. With the guard clear and a panel id unknown, Escape only
  unselects the selected button.
\<close>

theorem C9_escape_guard:
  "(isKeyDown st \<longrightarrow> handleKeyDown st key = (Normal, st))
   \<and> handleKeyUp st = st\<lparr>isKeyDown := False\<rparr>
   \<and> (\<not> isKeyDown st \<and> previousPanelId st \<noteq> [] \<and> currentPanelId st \<noteq> []
        \<and> fst (togglePanelVisibility (unselect st) (currentPanelId st) (previousPanelId st))
             = Normal \<longrightarrow>
          handleKeyDown st ''Escape'' =
            (Normal,
             (snd (togglePanelVisibility (unselect st) (currentPanelId st) (previousPanelId st)))
               \<lparr>isKeyDown := True\<rparr>)
          \<and> isKeyDown (snd (handleKeyDown st ''Escape''))
          \<and> handleKeyDown (snd (handleKeyDown st ''Escape'')) ''Escape''
               = (Normal, snd (handleKeyDown st ''Escape'')))
   \<and> (\<not> isKeyDown st \<and> previousPanelId st \<noteq> [] \<and> currentPanelId st \<noteq> []
        \<and> fst (togglePanelVisibility (unselect st) (currentPanelId st) (previousPanelId st))
             = Threw e \<longrightarrow>
          handleKeyDown st ''Escape'' =
            (Threw e,
             snd (togglePanelVisibility (unselect st) (currentPanelId st) (previousPanelId st)))
          \<and> \<not> isKeyDown (snd (handleKeyDown st ''Escape'')))
   \<and> (\<not> isKeyDown st \<and> (previousPanelId st = [] \<or> currentPanelId st = []) \<longrightarrow>
          handleKeyDown st ''Escape'' = (Normal, unselect st)
          \<and> \<not> isKeyDown (snd (handleKeyDown st ''Escape'')))"
    (is "?A \<and> ?B \<and> (?H1 \<longrightarrow> ?C1) \<and> (?H2 \<longrightarrow> ?C2) \<and> (?H3 \<longrightarrow> ?C3)")
proof -
  let ?t = "togglePanelVisibility (unselect st) (currentPanelId st) (previousPanelId st)"
  have held: ?A by (simp add: handleKeyDown_held)
  have up: ?B by (simp add: handleKeyUp_def)
  have c1: ?C1 if h: ?H1
  proof -
    obtain r st2 where t: "?t = (r, st2)" by (cases ?t)
    then have r: "r = Normal" using h by simp
    have eq: "handleKeyDown st ''Escape'' = (Normal, st2\<lparr>isKeyDown := True\<rparr>)"
      using h t r by (simp add: handleKeyDown_Escape)
    show ?thesis unfolding eq t by (simp add: handleKeyDown_held)
  qed
  have c2: ?C2 if h: ?H2
  proof -
    obtain r st2 where t: "?t = (r, st2)" by (cases ?t)
    then have r: "r = Threw e" using h by simp
    have k: "isKeyDown st2 = isKeyDown st"
      using toggle_isKeyDown [of "unselect st" "currentPanelId st" "previousPanelId st"] t
      by simp
    have eq: "handleKeyDown st ''Escape'' = (Threw e, st2)"
      using h t r by (simp add: handleKeyDown_Escape)
    show ?thesis unfolding eq t using k h by simp
  qed
  have c3: ?C3 if h: ?H3
    using h by (auto simp: handleKeyDown_def unselect_def Let_def split: option.splits)
  show ?thesis using held up c1 c2 c3 by blast
qed

theorem C9_escape_guard_witness:
  "\<not> isKeyDown settings_state
   \<and> previousPanelId settings_state = ''home'' \<and> currentPanelId settings_state = ''settings''
   \<and> querySelectorAll (document settings_state) sel_panel_visible = [2]
   \<and> fst (togglePanelVisibility (unselect settings_state) ''settings'' ''home'') = Normal
   \<and> fst (handleKeyDown settings_state ''Escape'') = Normal
   \<and> isKeyDown (snd (handleKeyDown settings_state ''Escape''))
   \<and> querySelectorAll (document (snd (handleKeyDown settings_state ''Escape'')))
        sel_panel_visible = [0]
   \<and> handleKeyDown (snd (handleKeyDown settings_state ''Escape'')) ''Escape''
        = (Normal, snd (handleKeyDown settings_state ''Escape''))
   \<and> \<not> isKeyDown (handleKeyUp (snd (handleKeyDown settings_state ''Escape'')))
   \<and> \<not> isKeyDown root_state
   \<and> previousPanelId root_state = ''root'' \<and> currentPanelId root_state = ''settings''
   \<and> fst (togglePanelVisibility (unselect root_state) ''settings'' ''root'') = Threw TypeError
   \<and> fst (handleKeyDown root_state ''Escape'') = Threw TypeError
   \<and> \<not> isKeyDown (snd (handleKeyDown root_state ''Escape''))
   \<and> \<not> isKeyDown example_state \<and> previousPanelId example_state = []
   \<and> handleKeyDown example_state ''Escape'' = (Normal, example_state)"
proof -
  have un: "unselect settings_state = settings_state"
    by (simp add: unselect_def querySelector_def sel_selected_def settings_state_pointer
          settings_document_eq)
  have ne: "''settings'' \<noteq> ''home''" by simp
  have src: "getElementById (document settings_state) ''settings'' = Some 2"
    and tgt: "getElementById (document settings_state) ''home'' = Some 0"
    by (simp_all add: settings_state_pointer settings_document_eq getElementById_def)
  have pan: "role_panel (document settings_state ! 0)"
    by (simp add: settings_state_pointer settings_document_eq)
  have vis0: "querySelectorAll (document settings_state) sel_panel_visible = [2]"
    by (simp add: settings_state_pointer settings_document_eq querySelectorAll_def
          sel_panel_visible_def upt_rec)
  have vis: "querySelectorAll (document (snd (togglePanelVisibility settings_state ''settings''
       ''home''))) sel_panel_visible = [0]"
    using ne src tgt pan by (rule toggle_resolved_visible)
  have normal: "fst (togglePanelVisibility settings_state ''settings'' ''home'') = Normal"
    unfolding toggle_resolved_lifecycle [OF ne src tgt]
    by (simp add: show_target_def settings_state_pointer settings_document_eq truthy_def)
  have unr: "unselect root_state = root_state"
    by (rule unselect_example_document) (simp add: root_state_simps)
  have thr: "fst (togglePanelVisibility root_state ''settings'' ''root'') = Threw TypeError"
    using toggle_missing_target [of "''settings''" "''root''" root_state 2]
    by (simp add: root_state_simps example_ids getElementById_def example_document_eq)
  have une: "unselect example_state = example_state"
    by (rule unselect_example_document) simp
  show ?thesis
    using C9_escape_guard [of settings_state "''Escape''" TypeError]
          C9_escape_guard [of "snd (handleKeyDown settings_state ''Escape'')" "''Escape''"
            TypeError]
          C9_escape_guard [of root_state "''Escape''" TypeError]
          C9_escape_guard [of example_state "''Escape''" TypeError]
          normal vis vis0 thr
    by (simp add: settings_state_pointer root_state_simps un unr une)
qed

end
